theory Spec2Isabelle
  imports Complex_Main "HOL-Library.AList"
begin

section \<open>JavaScript values read by the sync service\<close>

text \<open>
  The sync service (\<^verbatim>\<open>backend/src/services/sync.ts\<close>, here \<^verbatim>\<open>src/unnamed/part_001\<close>; all
  line numbers below are lines of that file unless another file is named) reads its
  records as \<^verbatim>\<open>any\<close>. A string property is modelled as \<open>string option\<close>: \<open>None\<close> is
  \<^verbatim>\<open>undefined\<close> (the property is absent), \<open>Some s\<close> is the string \<open>s\<close>. A thrown
  \<^verbatim>\<open>Error\<close> is represented by its \<^verbatim>\<open>message\<close>.
\<close>

type_synonym errorMessage = string

text \<open>Truthiness of an optional string: \<^verbatim>\<open>undefined\<close> and \<^verbatim>\<open>''\<close> are falsy.\<close>

definition truthy :: "string option \<Rightarrow> bool" where
  "truthy v = (case v of None \<Rightarrow> False | Some s \<Rightarrow> s \<noteq> [])"

text \<open>\<^verbatim>\<open>a || b\<close> on two optional strings.\<close>

definition orElse :: "string option \<Rightarrow> string option \<Rightarrow> string option" where
  "orElse a b = (if truthy a then a else b)"

text \<open>\<^verbatim>\<open>a || 'literal'\<close>: the result is always a string.\<close>

definition orDefault :: "string option \<Rightarrow> string \<Rightarrow> string" where
  "orDefault a d = (case a of None \<Rightarrow> d | Some s \<Rightarrow> if s = [] then d else s)"

text \<open>
  \<^verbatim>\<open>Amount || 0\<close>: an absent amount and the amount 0 both give 0. Amounts arrive as JSON
  numbers and are only passed through, so they are modelled as reals.
\<close>

definition amountOrZero :: "real option \<Rightarrow> real" where
  "amountOrZero a = (case a of None \<Rightarrow> 0 | Some x \<Rightarrow> if x = 0 then 0 else x)"

text \<open>
  \<^verbatim>\<open>new Date(v).getTime()\<close>: the milliseconds of the instant, or \<^verbatim>\<open>NaN\<close> (here \<open>None\<close>)
  for an invalid date. How a date string is parsed belongs to the JavaScript runtime, so
  the parser is a parameter; \<^verbatim>\<open>new Date(undefined)\<close> is always invalid.
\<close>

type_synonym dateParser = "string \<Rightarrow> int option"

definition getTime :: "dateParser \<Rightarrow> string option \<Rightarrow> int option" where
  "getTime D v = (case v of None \<Rightarrow> None | Some s \<Rightarrow> D s)"

text \<open>\<^verbatim>\<open>a > b\<close> on two such numbers: false as soon as one of them is \<^verbatim>\<open>NaN\<close>.\<close>

definition numGreater :: "int option \<Rightarrow> int option \<Rightarrow> bool" where
  "numGreater a b = (case a of None \<Rightarrow> False
                  | Some x \<Rightarrow> (case b of None \<Rightarrow> False | Some y \<Rightarrow> y < x))"

text \<open>
  \<^verbatim>\<open>String.prototype.trim\<close>, on strings whose code units are below 256: it strips the
  white space and line terminators TAB, LF, VT, FF, CR, SP and NBSP from both ends.
\<close>

definition isWhiteSpace :: "char \<Rightarrow> bool" where
  "isWhiteSpace c = (of_char c \<in> {9, 10, 11, 12, 13, 32, 160 :: nat})"

definition trim :: "string \<Rightarrow> string" where
  "trim s = rev (dropWhile isWhiteSpace (rev (dropWhile isWhiteSpace s)))"

section \<open>Data model\<close>

text \<open>The payloads handed to the update calls (\<^verbatim>\<open>Partial<OpportunityData>\<close> and the lead literal).\<close>

record OpportunityData =
  Name :: "string option"
  StageName :: "string option"
  Amount :: real
  CloseDate :: "string option"

record LeadData =
  FirstName :: string
  LastName :: string
  Company :: string
  Email :: string
  Status :: string

text \<open>
  The records fetched from either Salesforce org. Both kinds carry \<^verbatim>\<open>Id\<close>,
  \<^verbatim>\<open>CreatedDate\<close> and \<^verbatim>\<open>LastModifiedDate\<close>; these are the common part.
\<close>

record SObject =
  Id :: string
  CreatedDate :: "string option"
  LastModifiedDate :: "string option"

record SalesforceOpportunity = SObject +
  Name :: "string option"
  StageName :: "string option"
  Amount :: "real option"
  CloseDate :: "string option"

record SalesforceLead = SObject +
  FirstName :: "string option"
  LastName :: "string option"
  Company :: "string option"
  Email :: "string option"
  Status :: "string option"
  Phone :: "string option"
  Title :: "string option"

record SalesforceCredentials =
  email :: string
  password :: string
  securityToken :: string

record SalesforceService =
  accessToken :: string
  instanceUrl :: string

text \<open>\<^verbatim>\<open>lastSyncSource: 'partner' | 'raintree' | 'system'\<close>\<close>

datatype SyncSource = Partner | Raintree | System

text \<open>\<^verbatim>\<open>syncDirection: 'partner-to-raintree' | 'raintree-to-partner' | 'none' | 'conflict'\<close>\<close>

datatype SyncDirection = PartnerToRaintree | RaintreeToPartner | NoDirection | Conflict

text \<open>
  \<^verbatim>\<open>SyncMapping\<close>. The two stored dates are declared \<^verbatim>\<open>string\<close>, but the pass stores
  \<^verbatim>\<open>rec.LastModifiedDate || rec.CreatedDate\<close> into them, which is \<^verbatim>\<open>undefined\<close> when a
  record has neither; so they are optional strings here.
\<close>

record SyncMapping =
  partnerId :: string
  raintreeId :: string
  partnerLastModified :: "string option"
  raintreeLastModified :: "string option"
  lastSyncSource :: SyncSource
  lastSyncTime :: string

record SyncResult =
  recordId :: string
  recordName :: string
  syncDirection :: SyncDirection
  success :: bool
  error :: "errorMessage option"
  timestamp :: string

section \<open>The two remote systems\<close>

text \<open>
  What the Partner org and the Raintree org answer during one pass. A call that throws
  is \<open>Inl message\<close> (for an update: \<open>Some message\<close>); \<open>raintreeGetOpportunity\<close> and
  \<open>raintreeGetLead\<close> answer \<open>Inr None\<close> when the response body is falsy. The answers are
  functions of the request: within one pass every record is fetched before any update
  is issued, and every mapping issues at most one update.
\<close>

record remote =
  createWithCredentials :: "SalesforceCredentials \<Rightarrow> errorMessage + SalesforceService"
  getOpportunities :: "SalesforceService \<Rightarrow> errorMessage + SalesforceOpportunity list"
  getLeads :: "SalesforceService \<Rightarrow> errorMessage + SalesforceLead list"
  updateOpportunity :: "SalesforceService \<Rightarrow> string \<Rightarrow> OpportunityData \<Rightarrow> errorMessage option"
  updateLead :: "SalesforceService \<Rightarrow> string \<Rightarrow> LeadData \<Rightarrow> errorMessage option"
  raintreeGetOpportunity :: "string \<Rightarrow> errorMessage + SalesforceOpportunity option"
  raintreeGetLead :: "string \<Rightarrow> errorMessage + SalesforceLead option"
  raintreeUpdateOpportunity :: "string \<Rightarrow> OpportunityData \<Rightarrow> errorMessage option"
  raintreeUpdateLead :: "string \<Rightarrow> LeadData \<Rightarrow> errorMessage option"

text \<open>The update calls a pass issues, in order, with the record id and the payload.\<close>

datatype updateCall =
    RaintreeUpdateOpportunity string OpportunityData
  | PartnerUpdateOpportunity string OpportunityData
  | RaintreeUpdateLead string LeadData
  | PartnerUpdateLead string LeadData

section \<open>The decision\<close>

text \<open>\<^verbatim>\<open>rec.LastModifiedDate || rec.CreatedDate\<close>\<close>

definition lastModifiedOrCreated :: "'a SObject_scheme \<Rightarrow> string option" where
  "lastModifiedOrCreated rec = orElse (LastModifiedDate rec) (CreatedDate rec)"

text \<open>
  \<^verbatim>\<open>partnerHasNewChanges\<close> and \<^verbatim>\<open>raintreeHasNewChanges\<close> of \<^verbatim>\<open>syncOpportunityRecord\<close>
  (lines 190-197) and \<^verbatim>\<open>syncLeadRecord\<close> (lines 301-308).
\<close>

definition partnerHasNewChanges :: "dateParser \<Rightarrow> SyncMapping \<Rightarrow> 'a SObject_scheme \<Rightarrow> bool" where
  "partnerHasNewChanges D mapping partnerRec =
     numGreater (getTime D (lastModifiedOrCreated partnerRec)) (getTime D (partnerLastModified mapping))"

definition raintreeHasNewChanges :: "dateParser \<Rightarrow> SyncMapping \<Rightarrow> 'a SObject_scheme \<Rightarrow> bool" where
  "raintreeHasNewChanges D mapping raintreeRec =
     numGreater (getTime D (lastModifiedOrCreated raintreeRec)) (getTime D (raintreeLastModified mapping))"

text \<open>
  The decision of \<^verbatim>\<open>syncOpportunityRecord\<close> (lines 199-226); \<^verbatim>\<open>syncLeadRecord\<close> repeats
  it word for word (lines 310-335). It yields the two locals \<^verbatim>\<open>syncDirection\<close> and
  \<^verbatim>\<open>shouldSync\<close>, which start as \<^verbatim>\<open>'none'\<close> and \<^verbatim>\<open>false\<close>.
\<close>

definition decide ::
  "dateParser \<Rightarrow> SyncMapping \<Rightarrow> 'a SObject_scheme \<Rightarrow> 'a SObject_scheme \<Rightarrow> SyncDirection \<times> bool" where
  "decide D mapping partnerRec raintreeRec =
     (if partnerHasNewChanges D mapping partnerRec \<and> raintreeHasNewChanges D mapping raintreeRec then
        (if numGreater (getTime D (lastModifiedOrCreated partnerRec))
                    (getTime D (lastModifiedOrCreated raintreeRec))
         then (PartnerToRaintree, True)
         else (RaintreeToPartner, True))
      else if partnerHasNewChanges D mapping partnerRec then
        (if lastSyncSource mapping \<noteq> Raintree then (PartnerToRaintree, True)
         else (NoDirection, False))
      else if raintreeHasNewChanges D mapping raintreeRec then
        (if lastSyncSource mapping \<noteq> Partner then (RaintreeToPartner, True)
         else (NoDirection, False))
      else (NoDirection, False))"

section \<open>Syncing one record\<close>

definition opportunityName :: "SalesforceOpportunity \<Rightarrow> string" where
  "opportunityName partnerOpp = orDefault (SalesforceOpportunity.Name partnerOpp) ''Unknown''"

definition opportunityPayload :: "SalesforceOpportunity \<Rightarrow> OpportunityData" where
  "opportunityPayload opp =
     \<lparr> OpportunityData.Name = SalesforceOpportunity.Name opp,
       OpportunityData.StageName = SalesforceOpportunity.StageName opp,
       OpportunityData.Amount = amountOrZero (SalesforceOpportunity.Amount opp),
       OpportunityData.CloseDate = SalesforceOpportunity.CloseDate opp \<rparr>"

text \<open>
  \<^verbatim>\<open>syncOpportunityRecord\<close> (lines 184-290). \<open>now\<close> is what \<^verbatim>\<open>new Date().toISOString()\<close>
  yields in this call (every path evaluates it once). The second component lists the
  update calls issued.
\<close>

definition syncOpportunityRecord ::
  "dateParser \<Rightarrow> remote \<Rightarrow> string \<Rightarrow> SalesforceOpportunity \<Rightarrow> SalesforceOpportunity \<Rightarrow>
   SyncMapping \<Rightarrow> SalesforceService \<Rightarrow> SyncResult \<times> updateCall list" where
  "syncOpportunityRecord D env now partnerOpp raintreeOpp mapping partnerService =
     (case decide D mapping partnerOpp raintreeOpp of (direction, shouldSync) \<Rightarrow>
        if \<not> shouldSync then
          (\<lparr> recordId = partnerId mapping, recordName = opportunityName partnerOpp,
             syncDirection = NoDirection, success = True, error = None, timestamp = now \<rparr>, [])
        else if direction = PartnerToRaintree then
          (case raintreeUpdateOpportunity env (raintreeId mapping) (opportunityPayload partnerOpp) of
             None \<Rightarrow>
               (\<lparr> recordId = partnerId mapping, recordName = opportunityName partnerOpp,
                  syncDirection = PartnerToRaintree, success = True, error = None,
                  timestamp = now \<rparr>,
                [RaintreeUpdateOpportunity (raintreeId mapping) (opportunityPayload partnerOpp)])
           | Some message \<Rightarrow>
               (\<lparr> recordId = partnerId mapping, recordName = opportunityName partnerOpp,
                  syncDirection = direction, success = False, error = Some message,
                  timestamp = now \<rparr>,
                [RaintreeUpdateOpportunity (raintreeId mapping) (opportunityPayload partnerOpp)]))
        else if direction = RaintreeToPartner then
          (case updateOpportunity env partnerService (partnerId mapping)
                  (opportunityPayload raintreeOpp) of
             None \<Rightarrow>
               (\<lparr> recordId = partnerId mapping, recordName = opportunityName partnerOpp,
                  syncDirection = RaintreeToPartner, success = True, error = None,
                  timestamp = now \<rparr>,
                [PartnerUpdateOpportunity (partnerId mapping) (opportunityPayload raintreeOpp)])
           | Some message \<Rightarrow>
               (\<lparr> recordId = partnerId mapping, recordName = opportunityName partnerOpp,
                  syncDirection = direction, success = False, error = Some message,
                  timestamp = now \<rparr>,
                [PartnerUpdateOpportunity (partnerId mapping) (opportunityPayload raintreeOpp)]))
        else
          (\<lparr> recordId = partnerId mapping, recordName = opportunityName partnerOpp,
             syncDirection = NoDirection, success = True, error = None, timestamp = now \<rparr>, []))"

text \<open>
  \<^verbatim>\<open>`${partnerLead.FirstName || ''} ${partnerLead.LastName || ''}`.trim() || 'Unknown'\<close>
\<close>

definition leadName :: "SalesforceLead \<Rightarrow> string" where
  "leadName partnerLead =
     orDefault (Some (trim (orDefault (SalesforceLead.FirstName partnerLead) [] @ '' '' @
                            orDefault (SalesforceLead.LastName partnerLead) []))) ''Unknown''"

definition leadPayload :: "SalesforceLead \<Rightarrow> LeadData" where
  "leadPayload lead =
     \<lparr> LeadData.FirstName = orDefault (SalesforceLead.FirstName lead) [],
       LeadData.LastName = orDefault (SalesforceLead.LastName lead) [],
       LeadData.Company = orDefault (SalesforceLead.Company lead) [],
       LeadData.Email = orDefault (SalesforceLead.Email lead) [],
       LeadData.Status = orDefault (SalesforceLead.Status lead) ''Open - Not Contacted'' \<rparr>"

text \<open>\<^verbatim>\<open>syncLeadRecord\<close> (lines 295-401), with \<open>now\<close> and the call list as above.\<close>

definition syncLeadRecord ::
  "dateParser \<Rightarrow> remote \<Rightarrow> string \<Rightarrow> SalesforceLead \<Rightarrow> SalesforceLead \<Rightarrow>
   SyncMapping \<Rightarrow> SalesforceService \<Rightarrow> SyncResult \<times> updateCall list" where
  "syncLeadRecord D env now partnerLead raintreeLead mapping partnerService =
     (case decide D mapping partnerLead raintreeLead of (direction, shouldSync) \<Rightarrow>
        if \<not> shouldSync then
          (\<lparr> recordId = partnerId mapping, recordName = leadName partnerLead,
             syncDirection = NoDirection, success = True, error = None, timestamp = now \<rparr>, [])
        else if direction = PartnerToRaintree then
          (case raintreeUpdateLead env (raintreeId mapping) (leadPayload partnerLead) of
             None \<Rightarrow>
               (\<lparr> recordId = partnerId mapping, recordName = leadName partnerLead,
                  syncDirection = PartnerToRaintree, success = True, error = None,
                  timestamp = now \<rparr>,
                [RaintreeUpdateLead (raintreeId mapping) (leadPayload partnerLead)])
           | Some message \<Rightarrow>
               (\<lparr> recordId = partnerId mapping, recordName = leadName partnerLead,
                  syncDirection = direction, success = False, error = Some message,
                  timestamp = now \<rparr>,
                [RaintreeUpdateLead (raintreeId mapping) (leadPayload partnerLead)]))
        else if direction = RaintreeToPartner then
          (case updateLead env partnerService (partnerId mapping) (leadPayload raintreeLead) of
             None \<Rightarrow>
               (\<lparr> recordId = partnerId mapping, recordName = leadName partnerLead,
                  syncDirection = RaintreeToPartner, success = True, error = None,
                  timestamp = now \<rparr>,
                [PartnerUpdateLead (partnerId mapping) (leadPayload raintreeLead)])
           | Some message \<Rightarrow>
               (\<lparr> recordId = partnerId mapping, recordName = leadName partnerLead,
                  syncDirection = direction, success = False, error = Some message,
                  timestamp = now \<rparr>,
                [PartnerUpdateLead (partnerId mapping) (leadPayload raintreeLead)]))
        else
          (\<lparr> recordId = partnerId mapping, recordName = leadName partnerLead,
             syncDirection = NoDirection, success = True, error = None, timestamp = now \<rparr>, []))"

section \<open>One pass over the mappings\<close>

text \<open>
  The state the second loop of a pass works on: the two locals \<^verbatim>\<open>results\<close> and
  \<^verbatim>\<open>updatedMappings\<close>, and the update calls issued so far. A \<^verbatim>\<open>Record<string, SyncMapping>\<close>
  is the list of its entries in \<^verbatim>\<open>Object.entries\<close> order; its keys are distinct.
\<close>

record SyncState =
  results :: "SyncResult list"
  updatedMappings :: "(string \<times> SyncMapping) list"
  calls :: "updateCall list"

text \<open>
  The body of the first loop (lines 64-73 and 133-142), which fills \<^verbatim>\<open>raintreeOppMap\<close>
  (\<^verbatim>\<open>raintreeLeadMap\<close>); \<open>fetch\<close> is \<^verbatim>\<open>RaintreeSalesforceService.getOpportunity\<close>
  (\<^verbatim>\<open>getLead\<close>). A fetch that throws is caught and logged.
\<close>

definition fetchRaintreeRecord ::
  "(string \<Rightarrow> errorMessage + 'r option) \<Rightarrow> string \<times> SyncMapping \<Rightarrow>
   (string \<rightharpoonup> 'r) \<Rightarrow> (string \<rightharpoonup> 'r)" where
  "fetchRaintreeRecord fetch entry raintreeMap =
     (case entry of (pid, mapping) \<Rightarrow>
        (case fetch (raintreeId mapping) of
           Inl e \<Rightarrow> raintreeMap
         | Inr None \<Rightarrow> raintreeMap
         | Inr (Some raintreeRec) \<Rightarrow> raintreeMap(pid \<mapsto> raintreeRec)))"

text \<open>
  The mapping written back for a processed entry (lines 94-102 and 163-171):
  \<^verbatim>\<open>{ ...mapping, partnerLastModified: ..., raintreeLastModified: ..., lastSyncSource: ...,
  lastSyncTime: syncResult.timestamp }\<close>.
\<close>

definition updatedMapping ::
  "SyncMapping \<Rightarrow> 'a SObject_scheme \<Rightarrow> 'a SObject_scheme \<Rightarrow> SyncResult \<Rightarrow> SyncMapping" where
  "updatedMapping mapping partnerRec raintreeRec syncResult =
     mapping\<lparr> partnerLastModified := lastModifiedOrCreated partnerRec,
              raintreeLastModified := lastModifiedOrCreated raintreeRec,
              lastSyncSource :=
                (if syncDirection syncResult = PartnerToRaintree then Partner
                 else if syncDirection syncResult = RaintreeToPartner then Raintree
                 else lastSyncSource mapping),
              lastSyncTime := timestamp syncResult \<rparr>"

text \<open>
  The body of the second loop (lines 76-103 and 145-172); \<open>syncRecord\<close> is
  \<^verbatim>\<open>this.syncOpportunityRecord\<close> (\<^verbatim>\<open>this.syncLeadRecord\<close>). \<open>clock n\<close> is the time the
  \<open>n\<close>-th call of \<open>syncRecord\<close> in this pass reads, counting from 0. An assignment
  \<^verbatim>\<open>updatedMappings[partnerId] = ...\<close> replaces the entry of an existing key in place.
\<close>

definition processMapping ::
  "(string \<Rightarrow> 'a SObject_scheme \<Rightarrow> 'a SObject_scheme \<Rightarrow> SyncMapping \<Rightarrow> SyncResult \<times> updateCall list) \<Rightarrow>
   (nat \<Rightarrow> string) \<Rightarrow> (string \<rightharpoonup> 'a SObject_scheme) \<Rightarrow> (string \<rightharpoonup> 'a SObject_scheme) \<Rightarrow>
   string \<times> SyncMapping \<Rightarrow> SyncState \<Rightarrow> SyncState" where
  "processMapping syncRecord clock partnerMap raintreeMap entry st =
     (case entry of (pid, mapping) \<Rightarrow>
        (case partnerMap pid of
           None \<Rightarrow> st
         | Some partnerRec \<Rightarrow>
             (case raintreeMap pid of
                None \<Rightarrow> st
              | Some raintreeRec \<Rightarrow>
                  (case syncRecord (clock (length (results st))) partnerRec raintreeRec mapping of
                     (syncResult, issued) \<Rightarrow>
                       st\<lparr> results := results st @ [syncResult],
                           updatedMappings :=
                             AList.update pid
                               (updatedMapping mapping partnerRec raintreeRec syncResult)
                               (updatedMappings st),
                           calls := calls st @ issued \<rparr>))))"

text \<open>\<^verbatim>\<open>new Map(records.map(rec => [rec.Id, rec]))\<close>: a later record with the same id wins.\<close>

definition recordMap :: "'a SObject_scheme list \<Rightarrow> (string \<rightharpoonup> 'a SObject_scheme)" where
  "recordMap recs = fold (\<lambda>rec m. m(Id rec \<mapsto> rec)) recs Map.empty"

text \<open>
  \<^verbatim>\<open>SyncService.syncOpportunities\<close> (lines 47-110). \<open>Inl message\<close> is the error the outer
  \<^verbatim>\<open>catch\<close> rethrows; \<open>Inr st\<close> is the returned \<^verbatim>\<open>{ results, updatedMappings }\<close>, with the
  update calls issued on the way.
\<close>

definition syncOpportunities ::
  "dateParser \<Rightarrow> remote \<Rightarrow> (nat \<Rightarrow> string) \<Rightarrow> SalesforceCredentials \<Rightarrow>
   (string \<times> SyncMapping) list \<Rightarrow> errorMessage + SyncState" where
  "syncOpportunities D env clock partnerCredentials mappings =
     (case createWithCredentials env partnerCredentials of
        Inl e \<Rightarrow> Inl e
      | Inr partnerService \<Rightarrow>
          (case getOpportunities env partnerService of
             Inl e \<Rightarrow> Inl e
           | Inr partnerOpps \<Rightarrow>
               Inr (fold (processMapping
                            (\<lambda>now partnerOpp raintreeOpp mapping.
                               syncOpportunityRecord D env now partnerOpp raintreeOpp mapping partnerService)
                            clock
                            (recordMap partnerOpps)
                            (fold (fetchRaintreeRecord (raintreeGetOpportunity env)) mappings Map.empty))
                         mappings
                         \<lparr> results = [], updatedMappings = mappings, calls = [] \<rparr>)))"

text \<open>\<^verbatim>\<open>SyncService.syncLeads\<close> (lines 116-179).\<close>

definition syncLeads ::
  "dateParser \<Rightarrow> remote \<Rightarrow> (nat \<Rightarrow> string) \<Rightarrow> SalesforceCredentials \<Rightarrow>
   (string \<times> SyncMapping) list \<Rightarrow> errorMessage + SyncState" where
  "syncLeads D env clock partnerCredentials mappings =
     (case createWithCredentials env partnerCredentials of
        Inl e \<Rightarrow> Inl e
      | Inr partnerService \<Rightarrow>
          (case getLeads env partnerService of
             Inl e \<Rightarrow> Inl e
           | Inr partnerLeads \<Rightarrow>
               Inr (fold (processMapping
                            (\<lambda>now partnerLead raintreeLead mapping.
                               syncLeadRecord D env now partnerLead raintreeLead mapping partnerService)
                            clock
                            (recordMap partnerLeads)
                            (fold (fetchRaintreeRecord (raintreeGetLead env)) mappings Map.empty))
                         mappings
                         \<lparr> results = [], updatedMappings = mappings, calls = [] \<rparr>)))"

section \<open>The summary of the route\<close>

text \<open>
  The summary that \<^verbatim>\<open>POST /api/sync/detect-changes\<close> computes over the results of both
  passes (\<^verbatim>\<open>backend/src/routes/sync.ts\<close>, here \<^verbatim>\<open>src/unnamed/part_002\<close>, lines 92-98).
\<close>

record Summary =
  total :: nat
  synced :: nat
  failed :: nat
  conflicts :: nat

definition summary :: "SyncResult list \<Rightarrow> SyncResult list \<Rightarrow> Summary" where
  "summary oppResults leadResults =
     (let allResults = oppResults @ leadResults in
      \<lparr> total = length allResults,
        synced = length (filter (\<lambda>r. success r \<and> syncDirection r \<noteq> NoDirection) allResults),
        failed = length (filter (\<lambda>r. \<not> success r) allResults),
        conflicts = length (filter (\<lambda>r. syncDirection r = Conflict) allResults) \<rparr>)"

section \<open>Sample data\<close>

text \<open>
  Concrete inputs on which the theorems below are exercised: three instants a day
  apart, one mapped opportunity and one mapped lead, and two orgs that answer every
  call successfully.
\<close>

definition sampleDates :: dateParser where
  "sampleDates s =
     (if s = ''2024-01-01T00:00:00.000Z'' then Some 1704067200000
      else if s = ''2024-01-02T00:00:00.000Z'' then Some 1704153600000
      else if s = ''2024-01-03T00:00:00.000Z'' then Some 1704240000000
      else None)"

definition sampleClock :: "nat \<Rightarrow> string" where
  "sampleClock n = ''2024-01-04T00:00:00.000Z''"

definition sampleMapping :: "string \<Rightarrow> string \<Rightarrow> SyncSource \<Rightarrow> SyncMapping" where
  "sampleMapping p r src =
     \<lparr> partnerId = p, raintreeId = r,
       partnerLastModified = Some ''2024-01-01T00:00:00.000Z'',
       raintreeLastModified = Some ''2024-01-01T00:00:00.000Z'',
       lastSyncSource = src, lastSyncTime = ''2024-01-01T00:00:05.000Z'' \<rparr>"

definition sampleOpportunity :: "string \<Rightarrow> string \<Rightarrow> SalesforceOpportunity" where
  "sampleOpportunity i modified =
     \<lparr> Id = i, CreatedDate = Some ''2024-01-01T00:00:00.000Z'', LastModifiedDate = Some modified,
       Name = Some ''Deal'', StageName = Some ''Prospecting'', Amount = Some 5000,
       CloseDate = Some ''2024-06-30'' \<rparr>"

definition sampleLead :: "string \<Rightarrow> string \<Rightarrow> SalesforceLead" where
  "sampleLead i modified =
     \<lparr> Id = i, CreatedDate = Some ''2024-01-01T00:00:00.000Z'', LastModifiedDate = Some modified,
       FirstName = Some ''Ada'', LastName = Some ''Moss'', Company = Some ''Acme'',
       Email = Some ''ada@acme.test'', Status = None, Phone = None, Title = None \<rparr>"

definition sampleCredentials :: SalesforceCredentials where
  "sampleCredentials = \<lparr> email = ''p@partner.test'', password = ''pw'', securityToken = ''tok'' \<rparr>"

definition sampleService :: SalesforceService where
  "sampleService = \<lparr> accessToken = ''00D!AQ'', instanceUrl = ''https://partner.test'' \<rparr>"

text \<open>
  The Partner org holds the opportunity \<open>006P1\<close> and the lead \<open>00QP1\<close>, last modified at
  \<open>pm\<close>; the Raintree org holds \<open>006R1\<close> and \<open>00QR1\<close>, last modified at \<open>rm\<close>, and
  answers any other id with an error.
\<close>

definition sampleRemote :: "string \<Rightarrow> string \<Rightarrow> remote" where
  "sampleRemote pm rm =
     \<lparr> createWithCredentials = (\<lambda>c. Inr sampleService),
       getOpportunities = (\<lambda>s. Inr [sampleOpportunity ''006P1'' pm]),
       getLeads = (\<lambda>s. Inr [sampleLead ''00QP1'' pm]),
       updateOpportunity = (\<lambda>s i d. None),
       updateLead = (\<lambda>s i d. None),
       raintreeGetOpportunity =
         (\<lambda>i. if i = ''006R1'' then Inr (Some (sampleOpportunity ''006R1'' rm)) else Inl ''NOT_FOUND''),
       raintreeGetLead =
         (\<lambda>i. if i = ''00QR1'' then Inr (Some (sampleLead ''00QR1'' rm)) else Inl ''NOT_FOUND''),
       raintreeUpdateOpportunity = (\<lambda>i d. None),
       raintreeUpdateLead = (\<lambda>i d. None) \<rparr>"

section \<open>The sample data, evaluated\<close>

lemma sampleDates_eval:
  "sampleDates ''2024-01-01T00:00:00.000Z'' = Some 1704067200000"
  "sampleDates ''2024-01-02T00:00:00.000Z'' = Some 1704153600000"
  "sampleDates ''2024-01-03T00:00:00.000Z'' = Some 1704240000000"
  by (simp_all add: sampleDates_def)

lemma sampleOpportunity_date:
  "modified \<noteq> [] \<Longrightarrow> lastModifiedOrCreated (sampleOpportunity i modified) = Some modified"
  by (simp add: lastModifiedOrCreated_def sampleOpportunity_def orElse_def truthy_def)

lemma sampleLead_date:
  "modified \<noteq> [] \<Longrightarrow> lastModifiedOrCreated (sampleLead i modified) = Some modified"
  by (simp add: lastModifiedOrCreated_def sampleLead_def orElse_def truthy_def)

lemma sampleMapping_sel:
  "partnerId (sampleMapping p r src) = p"
  "raintreeId (sampleMapping p r src) = r"
  "partnerLastModified (sampleMapping p r src) = Some ''2024-01-01T00:00:00.000Z''"
  "raintreeLastModified (sampleMapping p r src) = Some ''2024-01-01T00:00:00.000Z''"
  "lastSyncSource (sampleMapping p r src) = src"
  "lastSyncTime (sampleMapping p r src) = ''2024-01-01T00:00:05.000Z''"
  by (simp_all add: sampleMapping_def)

lemma sample_partnerHasNewChanges:
  "partnerHasNewChanges sampleDates (sampleMapping p r src) (sampleOpportunity i ''2024-01-01T00:00:00.000Z'') = False"
  "partnerHasNewChanges sampleDates (sampleMapping p r src) (sampleOpportunity i ''2024-01-02T00:00:00.000Z'') = True"
  "partnerHasNewChanges sampleDates (sampleMapping p r src) (sampleOpportunity i ''2024-01-03T00:00:00.000Z'') = True"
  "partnerHasNewChanges sampleDates (sampleMapping p r src) (sampleLead i ''2024-01-01T00:00:00.000Z'') = False"
  "partnerHasNewChanges sampleDates (sampleMapping p r src) (sampleLead i ''2024-01-02T00:00:00.000Z'') = True"
  "partnerHasNewChanges sampleDates (sampleMapping p r src) (sampleLead i ''2024-01-03T00:00:00.000Z'') = True"
  by (simp_all add: partnerHasNewChanges_def sampleOpportunity_date sampleLead_date sampleMapping_sel
        getTime_def sampleDates_eval numGreater_def)

lemma sample_raintreeHasNewChanges:
  "raintreeHasNewChanges sampleDates (sampleMapping p r src) (sampleOpportunity i ''2024-01-01T00:00:00.000Z'') = False"
  "raintreeHasNewChanges sampleDates (sampleMapping p r src) (sampleOpportunity i ''2024-01-02T00:00:00.000Z'') = True"
  "raintreeHasNewChanges sampleDates (sampleMapping p r src) (sampleOpportunity i ''2024-01-03T00:00:00.000Z'') = True"
  "raintreeHasNewChanges sampleDates (sampleMapping p r src) (sampleLead i ''2024-01-01T00:00:00.000Z'') = False"
  "raintreeHasNewChanges sampleDates (sampleMapping p r src) (sampleLead i ''2024-01-02T00:00:00.000Z'') = True"
  "raintreeHasNewChanges sampleDates (sampleMapping p r src) (sampleLead i ''2024-01-03T00:00:00.000Z'') = True"
  by (simp_all add: raintreeHasNewChanges_def sampleOpportunity_date sampleLead_date sampleMapping_sel
        getTime_def sampleDates_eval numGreater_def)

lemma sample_getTime:
  "getTime sampleDates (lastModifiedOrCreated (sampleOpportunity i ''2024-01-01T00:00:00.000Z'')) = Some 1704067200000"
  "getTime sampleDates (lastModifiedOrCreated (sampleOpportunity i ''2024-01-02T00:00:00.000Z'')) = Some 1704153600000"
  "getTime sampleDates (lastModifiedOrCreated (sampleOpportunity i ''2024-01-03T00:00:00.000Z'')) = Some 1704240000000"
  "getTime sampleDates (lastModifiedOrCreated (sampleLead i ''2024-01-01T00:00:00.000Z'')) = Some 1704067200000"
  "getTime sampleDates (lastModifiedOrCreated (sampleLead i ''2024-01-02T00:00:00.000Z'')) = Some 1704153600000"
  "getTime sampleDates (lastModifiedOrCreated (sampleLead i ''2024-01-03T00:00:00.000Z'')) = Some 1704240000000"
  "getTime sampleDates (Some ''2024-01-01T00:00:00.000Z'') = Some 1704067200000"
  by (simp_all add: sampleOpportunity_date sampleLead_date getTime_def sampleDates_eval)

text \<open>The definitions a concrete pass is evaluated with.\<close>

lemmas pass_eval =
  syncOpportunities_def syncLeads_def recordMap_def fetchRaintreeRecord_def processMapping_def
  syncOpportunityRecord_def syncLeadRecord_def decide_def partnerHasNewChanges_def
  raintreeHasNewChanges_def lastModifiedOrCreated_def orElse_def truthy_def getTime_def
  numGreater_def updatedMapping_def opportunityName_def opportunityPayload_def leadName_def
  leadPayload_def orDefault_def amountOrZero_def trim_def isWhiteSpace_def

lemmas sample_eval =
  sampleDates_def sampleClock_def sampleMapping_def sampleOpportunity_def sampleLead_def
  sampleCredentials_def sampleService_def sampleRemote_def

lemma sample_decide:
  "decide sampleDates (sampleMapping p r System)
     (sampleOpportunity i ''2024-01-02T00:00:00.000Z'') (sampleOpportunity j ''2024-01-01T00:00:00.000Z'') =
     (PartnerToRaintree, True)"
  "decide sampleDates (sampleMapping p r System)
     (sampleOpportunity i ''2024-01-01T00:00:00.000Z'') (sampleOpportunity j ''2024-01-02T00:00:00.000Z'') =
     (RaintreeToPartner, True)"
  "decide sampleDates (sampleMapping p r System)
     (sampleOpportunity i ''2024-01-01T00:00:00.000Z'') (sampleOpportunity j ''2024-01-01T00:00:00.000Z'') =
     (NoDirection, False)"
  "decide sampleDates (sampleMapping p r System)
     (sampleLead i ''2024-01-02T00:00:00.000Z'') (sampleLead j ''2024-01-01T00:00:00.000Z'') =
     (PartnerToRaintree, True)"
  "decide sampleDates (sampleMapping p r System)
     (sampleLead i ''2024-01-01T00:00:00.000Z'') (sampleLead j ''2024-01-02T00:00:00.000Z'') =
     (RaintreeToPartner, True)"
  "decide sampleDates (sampleMapping p r System)
     (sampleLead i ''2024-01-01T00:00:00.000Z'') (sampleLead j ''2024-01-01T00:00:00.000Z'') =
     (NoDirection, False)"
  by (simp_all add: decide_def sample_partnerHasNewChanges sample_raintreeHasNewChanges
        sampleMapping_sel sample_getTime numGreater_def)

section \<open>The decision: conflicts, one-sided changes, strictness\<close>

lemma numGreater_iff: "numGreater a b \<longleftrightarrow> (\<exists>x y. a = Some x \<and> b = Some y \<and> y < x)"
  by (auto simp: numGreater_def split: option.splits)

text \<open>
  C1. When both sides changed, both observed dates are valid instants, and the decision
  propagates the side whose observed date is strictly later to the other side; when the
  two observed instants are equal it is Raintree to Partner.
\<close>

theorem decide_conflict_recency:
  assumes "partnerHasNewChanges D mapping partnerRec"
    and "raintreeHasNewChanges D mapping raintreeRec"
  shows "\<exists>tp tr. getTime D (lastModifiedOrCreated partnerRec) = Some tp \<and>
                 getTime D (lastModifiedOrCreated raintreeRec) = Some tr \<and>
                 (tr < tp \<longrightarrow> decide D mapping partnerRec raintreeRec = (PartnerToRaintree, True)) \<and>
                 (tp < tr \<longrightarrow> decide D mapping partnerRec raintreeRec = (RaintreeToPartner, True)) \<and>
                 (tp = tr \<longrightarrow> decide D mapping partnerRec raintreeRec = (RaintreeToPartner, True))"
  using assms
  by (auto simp: decide_def partnerHasNewChanges_def raintreeHasNewChanges_def numGreater_iff)

theorem decide_conflict_recency_witness:
  "partnerHasNewChanges sampleDates (sampleMapping ''006P1'' ''006R1'' System)
     (sampleOpportunity ''006P1'' ''2024-01-03T00:00:00.000Z'') \<and>
   raintreeHasNewChanges sampleDates (sampleMapping ''006P1'' ''006R1'' System)
     (sampleOpportunity ''006R1'' ''2024-01-02T00:00:00.000Z'') \<and>
   decide sampleDates (sampleMapping ''006P1'' ''006R1'' System)
     (sampleOpportunity ''006P1'' ''2024-01-03T00:00:00.000Z'')
     (sampleOpportunity ''006R1'' ''2024-01-02T00:00:00.000Z'') = (PartnerToRaintree, True) \<and>
   partnerHasNewChanges sampleDates (sampleMapping ''00QP1'' ''00QR1'' Partner)
     (sampleLead ''00QP1'' ''2024-01-02T00:00:00.000Z'') \<and>
   raintreeHasNewChanges sampleDates (sampleMapping ''00QP1'' ''00QR1'' Partner)
     (sampleLead ''00QR1'' ''2024-01-03T00:00:00.000Z'') \<and>
   decide sampleDates (sampleMapping ''00QP1'' ''00QR1'' Partner)
     (sampleLead ''00QP1'' ''2024-01-02T00:00:00.000Z'')
     (sampleLead ''00QR1'' ''2024-01-03T00:00:00.000Z'') = (RaintreeToPartner, True) \<and>
   partnerHasNewChanges sampleDates (sampleMapping ''006P1'' ''006R1'' Partner)
     (sampleOpportunity ''006P1'' ''2024-01-02T00:00:00.000Z'') \<and>
   raintreeHasNewChanges sampleDates (sampleMapping ''006P1'' ''006R1'' Partner)
     (sampleOpportunity ''006R1'' ''2024-01-02T00:00:00.000Z'') \<and>
   decide sampleDates (sampleMapping ''006P1'' ''006R1'' Partner)
     (sampleOpportunity ''006P1'' ''2024-01-02T00:00:00.000Z'')
     (sampleOpportunity ''006R1'' ''2024-01-02T00:00:00.000Z'') = (RaintreeToPartner, True)"
  using decide_conflict_recency [of sampleDates "sampleMapping ''006P1'' ''006R1'' System"
      "sampleOpportunity ''006P1'' ''2024-01-03T00:00:00.000Z''"
      "sampleOpportunity ''006R1'' ''2024-01-02T00:00:00.000Z''"]
    decide_conflict_recency [of sampleDates "sampleMapping ''00QP1'' ''00QR1'' Partner"
      "sampleLead ''00QP1'' ''2024-01-02T00:00:00.000Z''"
      "sampleLead ''00QR1'' ''2024-01-03T00:00:00.000Z''"]
    decide_conflict_recency [of sampleDates "sampleMapping ''006P1'' ''006R1'' Partner"
      "sampleOpportunity ''006P1'' ''2024-01-02T00:00:00.000Z''"
      "sampleOpportunity ''006R1'' ''2024-01-02T00:00:00.000Z''"]
  by (simp add: sample_partnerHasNewChanges sample_raintreeHasNewChanges sample_getTime)

text \<open>
  C2. When only the Partner side changed, the decision is Partner to Raintree, unless
  \<open>lastSyncSource\<close> is Raintree, where nothing is synced; when only the Raintree side
  changed, it is Raintree to Partner, unless \<open>lastSyncSource\<close> is Partner.
\<close>

theorem decide_one_sided_change:
  "(partnerHasNewChanges D mapping partnerRec \<and> \<not> raintreeHasNewChanges D mapping raintreeRec \<longrightarrow>
      decide D mapping partnerRec raintreeRec =
        (if lastSyncSource mapping = Raintree then (NoDirection, False) else (PartnerToRaintree, True))) \<and>
   (raintreeHasNewChanges D mapping raintreeRec \<and> \<not> partnerHasNewChanges D mapping partnerRec \<longrightarrow>
      decide D mapping partnerRec raintreeRec =
        (if lastSyncSource mapping = Partner then (NoDirection, False) else (RaintreeToPartner, True)))"
  by (simp add: decide_def)

theorem decide_one_sided_change_witness:
  "(partnerHasNewChanges sampleDates (sampleMapping ''006P1'' ''006R1'' System)
      (sampleOpportunity ''006P1'' ''2024-01-02T00:00:00.000Z'') \<and>
    \<not> raintreeHasNewChanges sampleDates (sampleMapping ''006P1'' ''006R1'' System)
      (sampleOpportunity ''006R1'' ''2024-01-01T00:00:00.000Z'') \<and>
    decide sampleDates (sampleMapping ''006P1'' ''006R1'' System)
      (sampleOpportunity ''006P1'' ''2024-01-02T00:00:00.000Z'')
      (sampleOpportunity ''006R1'' ''2024-01-01T00:00:00.000Z'') = (PartnerToRaintree, True)) \<and>
   (partnerHasNewChanges sampleDates (sampleMapping ''006P1'' ''006R1'' Raintree)
      (sampleOpportunity ''006P1'' ''2024-01-02T00:00:00.000Z'') \<and>
    \<not> raintreeHasNewChanges sampleDates (sampleMapping ''006P1'' ''006R1'' Raintree)
      (sampleOpportunity ''006R1'' ''2024-01-01T00:00:00.000Z'') \<and>
    decide sampleDates (sampleMapping ''006P1'' ''006R1'' Raintree)
      (sampleOpportunity ''006P1'' ''2024-01-02T00:00:00.000Z'')
      (sampleOpportunity ''006R1'' ''2024-01-01T00:00:00.000Z'') = (NoDirection, False)) \<and>
   (raintreeHasNewChanges sampleDates (sampleMapping ''00QP1'' ''00QR1'' System)
      (sampleLead ''00QR1'' ''2024-01-02T00:00:00.000Z'') \<and>
    \<not> partnerHasNewChanges sampleDates (sampleMapping ''00QP1'' ''00QR1'' System)
      (sampleLead ''00QP1'' ''2024-01-01T00:00:00.000Z'') \<and>
    decide sampleDates (sampleMapping ''00QP1'' ''00QR1'' System)
      (sampleLead ''00QP1'' ''2024-01-01T00:00:00.000Z'')
      (sampleLead ''00QR1'' ''2024-01-02T00:00:00.000Z'') = (RaintreeToPartner, True)) \<and>
   (raintreeHasNewChanges sampleDates (sampleMapping ''00QP1'' ''00QR1'' Partner)
      (sampleLead ''00QR1'' ''2024-01-02T00:00:00.000Z'') \<and>
    \<not> partnerHasNewChanges sampleDates (sampleMapping ''00QP1'' ''00QR1'' Partner)
      (sampleLead ''00QP1'' ''2024-01-01T00:00:00.000Z'') \<and>
    decide sampleDates (sampleMapping ''00QP1'' ''00QR1'' Partner)
      (sampleLead ''00QP1'' ''2024-01-01T00:00:00.000Z'')
      (sampleLead ''00QR1'' ''2024-01-02T00:00:00.000Z'') = (NoDirection, False))"
  using decide_one_sided_change [of sampleDates "sampleMapping ''006P1'' ''006R1'' System"
      "sampleOpportunity ''006P1'' ''2024-01-02T00:00:00.000Z''"
      "sampleOpportunity ''006R1'' ''2024-01-01T00:00:00.000Z''"]
    decide_one_sided_change [of sampleDates "sampleMapping ''006P1'' ''006R1'' Raintree"
      "sampleOpportunity ''006P1'' ''2024-01-02T00:00:00.000Z''"
      "sampleOpportunity ''006R1'' ''2024-01-01T00:00:00.000Z''"]
    decide_one_sided_change [of sampleDates "sampleMapping ''00QP1'' ''00QR1'' System"
      "sampleLead ''00QP1'' ''2024-01-01T00:00:00.000Z''"
      "sampleLead ''00QR1'' ''2024-01-02T00:00:00.000Z''"]
    decide_one_sided_change [of sampleDates "sampleMapping ''00QP1'' ''00QR1'' Partner"
      "sampleLead ''00QP1'' ''2024-01-01T00:00:00.000Z''"
      "sampleLead ''00QR1'' ''2024-01-02T00:00:00.000Z''"]
  by (simp add: sample_partnerHasNewChanges sample_raintreeHasNewChanges sampleMapping_sel)

text \<open>
  C6. A side counts as changed exactly when its observed date and its stored date are
  both valid and the observed one is strictly later. So when on both sides the observed
  instant equals the stored one, neither side has changed and the decision is to do
  nothing, however often it is taken; in particular the decision taken again on the
  mapping a pass has written back, with the same two records, is to do nothing.
\<close>

theorem change_detection_strict:
  "(partnerHasNewChanges D mapping partnerRec \<longleftrightarrow>
      (\<exists>observed stored. getTime D (lastModifiedOrCreated partnerRec) = Some observed \<and>
                         getTime D (partnerLastModified mapping) = Some stored \<and> stored < observed)) \<and>
   (raintreeHasNewChanges D mapping raintreeRec \<longleftrightarrow>
      (\<exists>observed stored. getTime D (lastModifiedOrCreated raintreeRec) = Some observed \<and>
                         getTime D (raintreeLastModified mapping) = Some stored \<and> stored < observed)) \<and>
   (getTime D (lastModifiedOrCreated partnerRec) = getTime D (partnerLastModified mapping) \<and>
    getTime D (lastModifiedOrCreated raintreeRec) = getTime D (raintreeLastModified mapping) \<longrightarrow>
      \<not> partnerHasNewChanges D mapping partnerRec \<and> \<not> raintreeHasNewChanges D mapping raintreeRec \<and>
      decide D mapping partnerRec raintreeRec = (NoDirection, False)) \<and>
   decide D (updatedMapping mapping partnerRec raintreeRec syncResult) partnerRec raintreeRec =
     (NoDirection, False)"
  by (auto simp: decide_def partnerHasNewChanges_def raintreeHasNewChanges_def numGreater_iff
        updatedMapping_def)

theorem change_detection_strict_witness:
  "getTime sampleDates (lastModifiedOrCreated (sampleOpportunity ''006P1'' ''2024-01-01T00:00:00.000Z'')) =
     getTime sampleDates (partnerLastModified (sampleMapping ''006P1'' ''006R1'' System)) \<and>
   getTime sampleDates (lastModifiedOrCreated (sampleOpportunity ''006R1'' ''2024-01-01T00:00:00.000Z'')) =
     getTime sampleDates (raintreeLastModified (sampleMapping ''006P1'' ''006R1'' System)) \<and>
   decide sampleDates (sampleMapping ''006P1'' ''006R1'' System)
     (sampleOpportunity ''006P1'' ''2024-01-01T00:00:00.000Z'')
     (sampleOpportunity ''006R1'' ''2024-01-01T00:00:00.000Z'') = (NoDirection, False)"
  using change_detection_strict [of sampleDates
      "sampleMapping ''006P1'' ''006R1'' System"
      "sampleOpportunity ''006P1'' ''2024-01-01T00:00:00.000Z''"
      "sampleOpportunity ''006R1'' ''2024-01-01T00:00:00.000Z''"]
  by (simp add: sample_getTime sampleMapping_sel)

section \<open>Syncing one record: what is called and what is reported\<close>

lemma decide_cases:
  "decide D mapping partnerRec raintreeRec = (PartnerToRaintree, True) \<or>
   decide D mapping partnerRec raintreeRec = (RaintreeToPartner, True) \<or>
   decide D mapping partnerRec raintreeRec = (NoDirection, False)"
  by (simp add: decide_def)

lemma syncOpportunityRecord_none:
  assumes "decide D mapping partnerOpp raintreeOpp = (NoDirection, False)"
  shows "syncOpportunityRecord D env now partnerOpp raintreeOpp mapping partnerService =
         (\<lparr> recordId = partnerId mapping, recordName = opportunityName partnerOpp,
            syncDirection = NoDirection, success = True, error = None, timestamp = now \<rparr>, [])"
  using assms by (simp add: syncOpportunityRecord_def)

lemma syncOpportunityRecord_partner_to_raintree:
  assumes "decide D mapping partnerOpp raintreeOpp = (PartnerToRaintree, True)"
  shows "syncOpportunityRecord D env now partnerOpp raintreeOpp mapping partnerService =
         (\<lparr> recordId = partnerId mapping, recordName = opportunityName partnerOpp,
            syncDirection = PartnerToRaintree,
            success = (raintreeUpdateOpportunity env (raintreeId mapping) (opportunityPayload partnerOpp) = None),
            error = raintreeUpdateOpportunity env (raintreeId mapping) (opportunityPayload partnerOpp),
            timestamp = now \<rparr>,
          [RaintreeUpdateOpportunity (raintreeId mapping) (opportunityPayload partnerOpp)])"
  using assms by (simp add: syncOpportunityRecord_def split: option.splits)

lemma syncOpportunityRecord_raintree_to_partner:
  assumes "decide D mapping partnerOpp raintreeOpp = (RaintreeToPartner, True)"
  shows "syncOpportunityRecord D env now partnerOpp raintreeOpp mapping partnerService =
         (\<lparr> recordId = partnerId mapping, recordName = opportunityName partnerOpp,
            syncDirection = RaintreeToPartner,
            success = (updateOpportunity env partnerService (partnerId mapping) (opportunityPayload raintreeOpp) = None),
            error = updateOpportunity env partnerService (partnerId mapping) (opportunityPayload raintreeOpp),
            timestamp = now \<rparr>,
          [PartnerUpdateOpportunity (partnerId mapping) (opportunityPayload raintreeOpp)])"
  using assms by (simp add: syncOpportunityRecord_def split: option.splits)

lemma syncLeadRecord_none:
  assumes "decide D mapping partnerLead raintreeLead = (NoDirection, False)"
  shows "syncLeadRecord D env now partnerLead raintreeLead mapping partnerService =
         (\<lparr> recordId = partnerId mapping, recordName = leadName partnerLead,
            syncDirection = NoDirection, success = True, error = None, timestamp = now \<rparr>, [])"
  using assms by (simp add: syncLeadRecord_def)

lemma syncLeadRecord_partner_to_raintree:
  assumes "decide D mapping partnerLead raintreeLead = (PartnerToRaintree, True)"
  shows "syncLeadRecord D env now partnerLead raintreeLead mapping partnerService =
         (\<lparr> recordId = partnerId mapping, recordName = leadName partnerLead,
            syncDirection = PartnerToRaintree,
            success = (raintreeUpdateLead env (raintreeId mapping) (leadPayload partnerLead) = None),
            error = raintreeUpdateLead env (raintreeId mapping) (leadPayload partnerLead),
            timestamp = now \<rparr>,
          [RaintreeUpdateLead (raintreeId mapping) (leadPayload partnerLead)])"
  using assms by (simp add: syncLeadRecord_def split: option.splits)

lemma syncLeadRecord_raintree_to_partner:
  assumes "decide D mapping partnerLead raintreeLead = (RaintreeToPartner, True)"
  shows "syncLeadRecord D env now partnerLead raintreeLead mapping partnerService =
         (\<lparr> recordId = partnerId mapping, recordName = leadName partnerLead,
            syncDirection = RaintreeToPartner,
            success = (updateLead env partnerService (partnerId mapping) (leadPayload raintreeLead) = None),
            error = updateLead env partnerService (partnerId mapping) (leadPayload raintreeLead),
            timestamp = now \<rparr>,
          [PartnerUpdateLead (partnerId mapping) (leadPayload raintreeLead)])"
  using assms by (simp add: syncLeadRecord_def split: option.splits)

lemmas syncRecord_by_decision =
  syncOpportunityRecord_none syncOpportunityRecord_partner_to_raintree
  syncOpportunityRecord_raintree_to_partner
  syncLeadRecord_none syncLeadRecord_partner_to_raintree syncLeadRecord_raintree_to_partner

text \<open>
  C8. For a processed mapping, the record sync issues exactly one update call when the
  decision is a propagate action, on the gateway of the side that lost (Raintree for
  Partner to Raintree, Partner for Raintree to Partner) and with the winning record's
  field values, and issues no update call when the decision is to do nothing.
\<close>

theorem update_calls_of_one_record:
  "(decide D mapping partnerOpp raintreeOpp = (PartnerToRaintree, True) \<longrightarrow>
      snd (syncOpportunityRecord D env now partnerOpp raintreeOpp mapping partnerService) =
        [RaintreeUpdateOpportunity (raintreeId mapping) (opportunityPayload partnerOpp)]) \<and>
   (decide D mapping partnerOpp raintreeOpp = (RaintreeToPartner, True) \<longrightarrow>
      snd (syncOpportunityRecord D env now partnerOpp raintreeOpp mapping partnerService) =
        [PartnerUpdateOpportunity (partnerId mapping) (opportunityPayload raintreeOpp)]) \<and>
   (decide D mapping partnerOpp raintreeOpp = (NoDirection, False) \<longrightarrow>
      snd (syncOpportunityRecord D env now partnerOpp raintreeOpp mapping partnerService) = []) \<and>
   (decide D mapping partnerLead raintreeLead = (PartnerToRaintree, True) \<longrightarrow>
      snd (syncLeadRecord D env now partnerLead raintreeLead mapping partnerService) =
        [RaintreeUpdateLead (raintreeId mapping) (leadPayload partnerLead)]) \<and>
   (decide D mapping partnerLead raintreeLead = (RaintreeToPartner, True) \<longrightarrow>
      snd (syncLeadRecord D env now partnerLead raintreeLead mapping partnerService) =
        [PartnerUpdateLead (partnerId mapping) (leadPayload raintreeLead)]) \<and>
   (decide D mapping partnerLead raintreeLead = (NoDirection, False) \<longrightarrow>
      snd (syncLeadRecord D env now partnerLead raintreeLead mapping partnerService) = [])"
  by (simp add: syncRecord_by_decision)

theorem update_calls_of_one_record_witness:
  "decide sampleDates (sampleMapping ''006P1'' ''006R1'' System)
     (sampleOpportunity ''006P1'' ''2024-01-02T00:00:00.000Z'')
     (sampleOpportunity ''006R1'' ''2024-01-01T00:00:00.000Z'') = (PartnerToRaintree, True) \<and>
   snd (syncOpportunityRecord sampleDates
          (sampleRemote ''2024-01-02T00:00:00.000Z'' ''2024-01-01T00:00:00.000Z'') (sampleClock 0)
          (sampleOpportunity ''006P1'' ''2024-01-02T00:00:00.000Z'')
          (sampleOpportunity ''006R1'' ''2024-01-01T00:00:00.000Z'')
          (sampleMapping ''006P1'' ''006R1'' System) sampleService) =
     [RaintreeUpdateOpportunity ''006R1''
        (opportunityPayload (sampleOpportunity ''006P1'' ''2024-01-02T00:00:00.000Z''))] \<and>
   decide sampleDates (sampleMapping ''006P1'' ''006R1'' System)
     (sampleOpportunity ''006P1'' ''2024-01-01T00:00:00.000Z'')
     (sampleOpportunity ''006R1'' ''2024-01-01T00:00:00.000Z'') = (NoDirection, False) \<and>
   snd (syncOpportunityRecord sampleDates
          (sampleRemote ''2024-01-01T00:00:00.000Z'' ''2024-01-01T00:00:00.000Z'') (sampleClock 0)
          (sampleOpportunity ''006P1'' ''2024-01-01T00:00:00.000Z'')
          (sampleOpportunity ''006R1'' ''2024-01-01T00:00:00.000Z'')
          (sampleMapping ''006P1'' ''006R1'' System) sampleService) = [] \<and>
   decide sampleDates (sampleMapping ''00QP1'' ''00QR1'' System)
     (sampleLead ''00QP1'' ''2024-01-01T00:00:00.000Z'')
     (sampleLead ''00QR1'' ''2024-01-02T00:00:00.000Z'') = (RaintreeToPartner, True) \<and>
   snd (syncLeadRecord sampleDates
          (sampleRemote ''2024-01-01T00:00:00.000Z'' ''2024-01-02T00:00:00.000Z'') (sampleClock 0)
          (sampleLead ''00QP1'' ''2024-01-01T00:00:00.000Z'')
          (sampleLead ''00QR1'' ''2024-01-02T00:00:00.000Z'')
          (sampleMapping ''00QP1'' ''00QR1'' System) sampleService) =
     [PartnerUpdateLead ''00QP1'' (leadPayload (sampleLead ''00QR1'' ''2024-01-02T00:00:00.000Z''))]"
  using update_calls_of_one_record
          [of sampleDates "sampleMapping ''006P1'' ''006R1'' System"
              "sampleOpportunity ''006P1'' ''2024-01-02T00:00:00.000Z''"
              "sampleOpportunity ''006R1'' ''2024-01-01T00:00:00.000Z''"
              "sampleRemote ''2024-01-02T00:00:00.000Z'' ''2024-01-01T00:00:00.000Z''" "sampleClock 0"
              sampleService
              "sampleLead ''00QP1'' ''2024-01-02T00:00:00.000Z''"
              "sampleLead ''00QR1'' ''2024-01-01T00:00:00.000Z''"]
        update_calls_of_one_record
          [of sampleDates "sampleMapping ''006P1'' ''006R1'' System"
              "sampleOpportunity ''006P1'' ''2024-01-01T00:00:00.000Z''"
              "sampleOpportunity ''006R1'' ''2024-01-01T00:00:00.000Z''"
              "sampleRemote ''2024-01-01T00:00:00.000Z'' ''2024-01-01T00:00:00.000Z''" "sampleClock 0"
              sampleService
              "sampleLead ''00QP1'' ''2024-01-01T00:00:00.000Z''"
              "sampleLead ''00QR1'' ''2024-01-01T00:00:00.000Z''"]
        update_calls_of_one_record
          [of sampleDates "sampleMapping ''00QP1'' ''00QR1'' System"
              "sampleOpportunity ''006P1'' ''2024-01-01T00:00:00.000Z''"
              "sampleOpportunity ''006R1'' ''2024-01-02T00:00:00.000Z''"
              "sampleRemote ''2024-01-01T00:00:00.000Z'' ''2024-01-02T00:00:00.000Z''" "sampleClock 0"
              sampleService
              "sampleLead ''00QP1'' ''2024-01-01T00:00:00.000Z''"
              "sampleLead ''00QR1'' ''2024-01-02T00:00:00.000Z''"]
  by (simp add: sample_decide sampleMapping_sel)

text \<open>
  C10. Whatever the direction, the result of a record sync carries the mapping's
  \<open>partnerId\<close> as \<open>recordId\<close>, and a \<open>recordName\<close> computed from the Partner-side
  record alone: its \<open>Name\<close> for an opportunity, its trimmed first and last name for a
  lead, and \<open>Unknown\<close> when that is empty.
\<close>

theorem result_names_partner_record:
  "recordId (fst (syncOpportunityRecord D env now partnerOpp raintreeOpp mapping partnerService)) =
     partnerId mapping \<and>
   recordName (fst (syncOpportunityRecord D env now partnerOpp raintreeOpp mapping partnerService)) =
     orDefault (SalesforceOpportunity.Name partnerOpp) ''Unknown'' \<and>
   recordId (fst (syncLeadRecord D env now partnerLead raintreeLead mapping partnerService)) =
     partnerId mapping \<and>
   recordName (fst (syncLeadRecord D env now partnerLead raintreeLead mapping partnerService)) =
     orDefault (Some (trim (orDefault (SalesforceLead.FirstName partnerLead) [] @ '' '' @
                            orDefault (SalesforceLead.LastName partnerLead) []))) ''Unknown''"
  using decide_cases [of D mapping partnerOpp raintreeOpp] decide_cases [of D mapping partnerLead raintreeLead]
  by (auto simp: syncRecord_by_decision opportunityName_def leadName_def)

theorem result_names_partner_record_witness:
  "decide sampleDates (sampleMapping ''006P1'' ''006R1'' System)
     (sampleOpportunity ''006P1'' ''2024-01-01T00:00:00.000Z'')
     ((sampleOpportunity ''006R1'' ''2024-01-02T00:00:00.000Z'')
        \<lparr> SalesforceOpportunity.Name := Some ''Deal (renamed)'' \<rparr>) = (RaintreeToPartner, True) \<and>
   recordId (fst (syncOpportunityRecord sampleDates
          (sampleRemote ''2024-01-01T00:00:00.000Z'' ''2024-01-02T00:00:00.000Z'') (sampleClock 0)
          (sampleOpportunity ''006P1'' ''2024-01-01T00:00:00.000Z'')
          ((sampleOpportunity ''006R1'' ''2024-01-02T00:00:00.000Z'')
             \<lparr> SalesforceOpportunity.Name := Some ''Deal (renamed)'' \<rparr>)
          (sampleMapping ''006P1'' ''006R1'' System) sampleService)) = ''006P1'' \<and>
   recordName (fst (syncOpportunityRecord sampleDates
          (sampleRemote ''2024-01-01T00:00:00.000Z'' ''2024-01-02T00:00:00.000Z'') (sampleClock 0)
          (sampleOpportunity ''006P1'' ''2024-01-01T00:00:00.000Z'')
          ((sampleOpportunity ''006R1'' ''2024-01-02T00:00:00.000Z'')
             \<lparr> SalesforceOpportunity.Name := Some ''Deal (renamed)'' \<rparr>)
          (sampleMapping ''006P1'' ''006R1'' System) sampleService)) = ''Deal'' \<and>
   recordId (fst (syncLeadRecord sampleDates
          (sampleRemote ''2024-01-01T00:00:00.000Z'' ''2024-01-02T00:00:00.000Z'') (sampleClock 0)
          (sampleLead ''00QP1'' ''2024-01-01T00:00:00.000Z'')
          ((sampleLead ''00QR1'' ''2024-01-02T00:00:00.000Z'')
             \<lparr> SalesforceLead.LastName := Some ''Moss-Lee'' \<rparr>)
          (sampleMapping ''00QP1'' ''00QR1'' System) sampleService)) = ''00QP1'' \<and>
   recordName (fst (syncLeadRecord sampleDates
          (sampleRemote ''2024-01-01T00:00:00.000Z'' ''2024-01-02T00:00:00.000Z'') (sampleClock 0)
          (sampleLead ''00QP1'' ''2024-01-01T00:00:00.000Z'')
          ((sampleLead ''00QR1'' ''2024-01-02T00:00:00.000Z'')
             \<lparr> SalesforceLead.LastName := Some ''Moss-Lee'' \<rparr>)
          (sampleMapping ''00QP1'' ''00QR1'' System) sampleService)) = ''Ada Moss''"
  using result_names_partner_record
          [of sampleDates "sampleRemote ''2024-01-01T00:00:00.000Z'' ''2024-01-02T00:00:00.000Z''"
              "sampleClock 0"
              "sampleOpportunity ''006P1'' ''2024-01-01T00:00:00.000Z''"
              "(sampleOpportunity ''006R1'' ''2024-01-02T00:00:00.000Z'')
                 \<lparr> SalesforceOpportunity.Name := Some ''Deal (renamed)'' \<rparr>"
              "sampleMapping ''006P1'' ''006R1'' System" sampleService
              "sampleLead ''00QP1'' ''2024-01-01T00:00:00.000Z''"
              "(sampleLead ''00QR1'' ''2024-01-02T00:00:00.000Z'')
                 \<lparr> SalesforceLead.LastName := Some ''Moss-Lee'' \<rparr>"]
        result_names_partner_record
          [of sampleDates "sampleRemote ''2024-01-01T00:00:00.000Z'' ''2024-01-02T00:00:00.000Z''"
              "sampleClock 0"
              "sampleOpportunity ''006P1'' ''2024-01-01T00:00:00.000Z''"
              "(sampleOpportunity ''006R1'' ''2024-01-02T00:00:00.000Z'')
                 \<lparr> SalesforceOpportunity.Name := Some ''Deal (renamed)'' \<rparr>"
              "sampleMapping ''00QP1'' ''00QR1'' System" sampleService
              "sampleLead ''00QP1'' ''2024-01-01T00:00:00.000Z''"
              "(sampleLead ''00QR1'' ''2024-01-02T00:00:00.000Z'')
                 \<lparr> SalesforceLead.LastName := Some ''Moss-Lee'' \<rparr>"]
  by (simp add: decide_def partnerHasNewChanges_def raintreeHasNewChanges_def
        lastModifiedOrCreated_def orElse_def truthy_def getTime_def numGreater_def
        orDefault_def trim_def isWhiteSpace_def sample_eval)

lemma syncRecord_never_conflict:
  "syncDirection (fst (syncOpportunityRecord D env now partnerOpp raintreeOpp mapping partnerService)) \<noteq> Conflict"
  "syncDirection (fst (syncLeadRecord D env now partnerLead raintreeLead mapping partnerService)) \<noteq> Conflict"
  using decide_cases [of D mapping partnerOpp raintreeOpp] decide_cases [of D mapping partnerLead raintreeLead]
  by (auto simp: syncRecord_by_decision)

section \<open>The two loops of a pass\<close>

subsection \<open>The first loop\<close>

lemma fetchRaintreeRecord_at_key:
  "m1 k = m2 k \<Longrightarrow> fetchRaintreeRecord fetch entry m1 k = fetchRaintreeRecord fetch entry m2 k"
  by (cases entry) (auto simp: fetchRaintreeRecord_def split: sum.splits option.splits)

lemma fold_fetchRaintreeRecord_at_key:
  "m1 k = m2 k \<Longrightarrow>
   fold (fetchRaintreeRecord fetch) ms m1 k = fold (fetchRaintreeRecord fetch) ms m2 k"
proof (induction ms arbitrary: m1 m2)
  case Nil
  then show ?case by simp
next
  case (Cons entry ms)
  have "fetchRaintreeRecord fetch entry m1 k = fetchRaintreeRecord fetch entry m2 k"
    using Cons.prems by (rule fetchRaintreeRecord_at_key)
  then have "fold (fetchRaintreeRecord fetch) ms (fetchRaintreeRecord fetch entry m1) k =
             fold (fetchRaintreeRecord fetch) ms (fetchRaintreeRecord fetch entry m2) k"
    by (rule Cons.IH)
  then show ?case by simp
qed

lemma fetchRaintreeRecord_other_key:
  "fst entry \<noteq> k \<Longrightarrow> fetchRaintreeRecord fetch entry m k = m k"
  by (cases entry) (auto simp: fetchRaintreeRecord_def split: sum.splits option.splits)

lemma fold_fetchRaintreeRecord_other_keys:
  "k \<notin> fst ` set ms \<Longrightarrow> fold (fetchRaintreeRecord fetch) ms m k = m k"
  by (induction ms arbitrary: m) (auto simp: fetchRaintreeRecord_other_key)

lemma fold_fetchRaintreeRecord_entry:
  assumes "distinct (map fst ms)" and "(k, mapping) \<in> set ms"
  shows "fold (fetchRaintreeRecord fetch) ms m k =
         (case fetch (raintreeId mapping) of
            Inl e \<Rightarrow> m k | Inr None \<Rightarrow> m k | Inr (Some r) \<Rightarrow> Some r)"
proof -
  obtain xs ys where ms: "ms = xs @ (k, mapping) # ys"
    using assms(2) by (meson split_list)
  with assms(1) have k: "k \<notin> fst ` set xs" "k \<notin> fst ` set ys" by auto
  show ?thesis
    by (simp add: ms fold_fetchRaintreeRecord_other_keys k)
       (simp add: fetchRaintreeRecord_def fold_fetchRaintreeRecord_other_keys k
          split: sum.splits option.splits)
qed

lemma fold_fetchRaintreeRecord_without:
  assumes "k' \<noteq> k"
  shows "fold (fetchRaintreeRecord fetch) (xs @ (k, mapping) # ys) m k' =
         fold (fetchRaintreeRecord fetch) (xs @ ys) m k'"
proof -
  have "fetchRaintreeRecord fetch (k, mapping) (fold (fetchRaintreeRecord fetch) xs m) k' =
        fold (fetchRaintreeRecord fetch) xs m k'"
    using assms by (simp add: fetchRaintreeRecord_other_key)
  then have "fold (fetchRaintreeRecord fetch) ys
               (fetchRaintreeRecord fetch (k, mapping) (fold (fetchRaintreeRecord fetch) xs m)) k' =
             fold (fetchRaintreeRecord fetch) ys (fold (fetchRaintreeRecord fetch) xs m) k'"
    by (rule fold_fetchRaintreeRecord_at_key)
  then show ?thesis by simp
qed

subsection \<open>The second loop\<close>

lemma processMapping_skipped:
  "partnerMap pid = None \<or> raintreeMap pid = None \<Longrightarrow>
   processMapping syncRecord clock partnerMap raintreeMap (pid, mapping) st = st"
  by (auto simp: processMapping_def split: option.splits)

lemma processMapping_processed:
  assumes "partnerMap pid = Some partnerRec" and "raintreeMap pid = Some raintreeRec"
  shows "processMapping syncRecord clock partnerMap raintreeMap (pid, mapping) st =
         st\<lparr> results := results st @
                  [fst (syncRecord (clock (length (results st))) partnerRec raintreeRec mapping)],
             updatedMappings :=
               AList.update pid
                 (updatedMapping mapping partnerRec raintreeRec
                    (fst (syncRecord (clock (length (results st))) partnerRec raintreeRec mapping)))
                 (updatedMappings st),
             calls := calls st @
                  snd (syncRecord (clock (length (results st))) partnerRec raintreeRec mapping) \<rparr>"
  using assms by (simp add: processMapping_def split: prod.splits)

lemma processMapping_results_prefix:
  "\<exists>ys. results (processMapping syncRecord clock partnerMap raintreeMap entry st) = results st @ ys"
  by (cases entry) (auto simp: processMapping_def split: option.splits prod.splits)

lemma fold_processMapping_results_prefix:
  "\<exists>ys. results (fold (processMapping syncRecord clock partnerMap raintreeMap) ms st) = results st @ ys"
proof (induction ms arbitrary: st)
  case Nil
  show ?case by simp
next
  case (Cons entry ms)
  let ?P = "processMapping syncRecord clock partnerMap raintreeMap"
  obtain ys where 1: "results (?P entry st) = results st @ ys"
    using processMapping_results_prefix by blast
  obtain zs where "results (fold ?P ms (?P entry st)) = results (?P entry st) @ zs"
    using Cons.IH by blast
  with 1 show ?case by simp
qed

lemma processMapping_other_key:
  "fst entry \<noteq> k \<Longrightarrow>
   map_of (updatedMappings (processMapping syncRecord clock partnerMap raintreeMap entry st)) k =
   map_of (updatedMappings st) k"
  by (cases entry) (auto simp: processMapping_def update_conv' split: option.splits prod.splits)

lemma fold_processMapping_other_keys:
  "k \<notin> fst ` set ms \<Longrightarrow>
   map_of (updatedMappings (fold (processMapping syncRecord clock partnerMap raintreeMap) ms st)) k =
   map_of (updatedMappings st) k"
  by (induction ms arbitrary: st) (auto simp: processMapping_other_key)

lemma processMapping_raintreeMap_cong:
  "raintreeMap1 (fst entry) = raintreeMap2 (fst entry) \<Longrightarrow>
   processMapping syncRecord clock partnerMap raintreeMap1 entry =
   processMapping syncRecord clock partnerMap raintreeMap2 entry"
  by (cases entry) (auto simp: processMapping_def fun_eq_iff split: option.splits)

lemma fold_processMapping_raintreeMap_cong:
  assumes "\<And>k. k \<in> fst ` set ms \<Longrightarrow> raintreeMap1 k = raintreeMap2 k"
  shows "fold (processMapping syncRecord clock partnerMap raintreeMap1) ms st =
         fold (processMapping syncRecord clock partnerMap raintreeMap2) ms st"
proof -
  have "\<And>entry. entry \<in> set ms \<Longrightarrow>
          processMapping syncRecord clock partnerMap raintreeMap1 entry =
          processMapping syncRecord clock partnerMap raintreeMap2 entry"
    by (rule processMapping_raintreeMap_cong) (simp add: assms)
  then show ?thesis by (simp cong: fold_cong)
qed

text \<open>The results and the calls of the loop do not depend on \<open>updatedMappings\<close>.\<close>

lemma processMapping_log:
  assumes "results st = results st'" and "calls st = calls st'"
  shows "results (processMapping syncRecord clock partnerMap raintreeMap entry st) =
         results (processMapping syncRecord clock partnerMap raintreeMap entry st') \<and>
         calls (processMapping syncRecord clock partnerMap raintreeMap entry st) =
         calls (processMapping syncRecord clock partnerMap raintreeMap entry st')"
  using assms by (cases entry) (auto simp: processMapping_def split: option.splits prod.splits)

lemma fold_processMapping_log:
  assumes "results st = results st'" and "calls st = calls st'"
  shows "results (fold (processMapping syncRecord clock partnerMap raintreeMap) ms st) =
         results (fold (processMapping syncRecord clock partnerMap raintreeMap) ms st') \<and>
         calls (fold (processMapping syncRecord clock partnerMap raintreeMap) ms st) =
         calls (fold (processMapping syncRecord clock partnerMap raintreeMap) ms st')"
  using assms
proof (induction ms arbitrary: st st')
  case Nil
  then show ?case by simp
next
  case (Cons entry ms)
  show ?case
    using Cons.IH [OF conjunct1 [OF processMapping_log [OF Cons.prems]]
                      conjunct2 [OF processMapping_log [OF Cons.prems]]]
    by simp
qed

lemma fold_processMapping_directions:
  assumes "\<And>now p r m. syncDirection (fst (syncRecord now p r m)) \<noteq> Conflict"
    and "Conflict \<notin> syncDirection ` set (results st)"
  shows "Conflict \<notin> syncDirection ` set
           (results (fold (processMapping syncRecord clock partnerMap raintreeMap) ms st))"
  using assms(2)
proof (induction ms arbitrary: st)
  case Nil
  then show ?case by simp
next
  case (Cons entry ms)
  obtain k m where entry: "entry = (k, m)" by (cases entry)
  have "Conflict \<notin> syncDirection ` set
          (results (processMapping syncRecord clock partnerMap raintreeMap entry st))"
  proof (cases "partnerMap k = None \<or> raintreeMap k = None")
    case True
    then show ?thesis using Cons.prems by (simp add: entry processMapping_skipped)
  next
    case False
    then obtain p r where "partnerMap k = Some p" "raintreeMap k = Some r" by auto
    then show ?thesis
      using Cons.prems assms(1) [THEN not_sym] by (simp add: entry processMapping_processed)
  qed
  from Cons.IH [OF this] show ?case by simp
qed

lemma fold_processMapping_entry_processed:
  assumes "distinct (map fst ms)" and "(k, mapping) \<in> set ms"
    and "partnerMap k = Some partnerRec" and "raintreeMap k = Some raintreeRec"
  shows "\<exists>n. length (results st) \<le> n \<and>
             n < length (results (fold (processMapping syncRecord clock partnerMap raintreeMap) ms st)) \<and>
             results (fold (processMapping syncRecord clock partnerMap raintreeMap) ms st) ! n =
               fst (syncRecord (clock n) partnerRec raintreeRec mapping) \<and>
             map_of (updatedMappings (fold (processMapping syncRecord clock partnerMap raintreeMap) ms st)) k =
               Some (updatedMapping mapping partnerRec raintreeRec
                       (fst (syncRecord (clock n) partnerRec raintreeRec mapping)))"
proof -
  let ?P = "processMapping syncRecord clock partnerMap raintreeMap"
  obtain xs ys where ms: "ms = xs @ (k, mapping) # ys"
    using assms(2) by (meson split_list)
  with assms(1) have k: "k \<notin> fst ` set ys" by auto
  define st1 where "st1 = fold ?P xs st"
  define n where "n = length (results st1)"
  define res where "res = fst (syncRecord (clock n) partnerRec raintreeRec mapping)"
  define st2 where "st2 = ?P (k, mapping) st1"
  have st2: "results st2 = results st1 @ [res]"
    "map_of (updatedMappings st2) k = Some (updatedMapping mapping partnerRec raintreeRec res)"
    unfolding st2_def res_def n_def using assms(3,4)
    by (simp_all add: processMapping_processed update_conv')
  obtain pre where pre: "results st1 = results st @ pre"
    unfolding st1_def using fold_processMapping_results_prefix by blast
  obtain post where post: "results (fold ?P ys st2) = results st2 @ post"
    using fold_processMapping_results_prefix by blast
  have final: "fold ?P ms st = fold ?P ys st2"
    by (simp add: ms st1_def st2_def)
  have "length (results st) \<le> n" by (simp add: n_def pre)
  moreover have "n < length (results (fold ?P ms st))"
    by (simp add: final post st2 n_def)
  moreover have "results (fold ?P ms st) ! n = res"
    by (simp add: final post st2 n_def nth_append)
  moreover have "map_of (updatedMappings (fold ?P ms st)) k =
                 Some (updatedMapping mapping partnerRec raintreeRec res)"
    by (simp add: final fold_processMapping_other_keys [OF k] st2)
  ultimately show ?thesis unfolding res_def by blast
qed

text \<open>The two loops together, on an entry both of whose records were fetched.\<close>

lemma loops_entry_processed:
  assumes "distinct (map fst ms)" and "(k, mapping) \<in> set ms"
    and "partnerMap k = Some partnerRec" and "fetch (raintreeId mapping) = Inr (Some raintreeRec)"
  shows "\<exists>n. n < length (results (fold (processMapping syncRecord clock partnerMap
                                         (fold (fetchRaintreeRecord fetch) ms Map.empty)) ms
                                   \<lparr> results = [], updatedMappings = ms, calls = [] \<rparr>)) \<and>
             results (fold (processMapping syncRecord clock partnerMap
                              (fold (fetchRaintreeRecord fetch) ms Map.empty)) ms
                        \<lparr> results = [], updatedMappings = ms, calls = [] \<rparr>) ! n =
               fst (syncRecord (clock n) partnerRec raintreeRec mapping) \<and>
             map_of (updatedMappings (fold (processMapping syncRecord clock partnerMap
                                              (fold (fetchRaintreeRecord fetch) ms Map.empty)) ms
                                        \<lparr> results = [], updatedMappings = ms, calls = [] \<rparr>)) k =
               Some (updatedMapping mapping partnerRec raintreeRec
                       (fst (syncRecord (clock n) partnerRec raintreeRec mapping)))"
proof -
  have "fold (fetchRaintreeRecord fetch) ms Map.empty k = Some raintreeRec"
    by (simp add: fold_fetchRaintreeRecord_entry [OF assms(1,2)] assms(4))
  from fold_processMapping_entry_processed
         [where partnerMap = partnerMap and k = k and st = "\<lparr> results = [], updatedMappings = ms, calls = [] \<rparr>"
            and raintreeMap = "fold (fetchRaintreeRecord fetch) ms Map.empty",
          OF assms(1,2,3) this]
  show ?thesis by blast
qed

text \<open>The two loops together, on an entry one of whose records is missing.\<close>

lemma loops_entry_skipped:
  assumes "distinct (map fst (xs @ (k, mapping) # ys))"
    and "partnerMap k = None \<or> (\<forall>r. fetch (raintreeId mapping) \<noteq> Inr (Some r))"
  shows "results (fold (processMapping syncRecord clock partnerMap
                          (fold (fetchRaintreeRecord fetch) (xs @ (k, mapping) # ys) Map.empty))
                    (xs @ (k, mapping) # ys)
                    \<lparr> results = [], updatedMappings = xs @ (k, mapping) # ys, calls = [] \<rparr>) =
         results (fold (processMapping syncRecord clock partnerMap
                          (fold (fetchRaintreeRecord fetch) (xs @ ys) Map.empty))
                    (xs @ ys)
                    \<lparr> results = [], updatedMappings = xs @ ys, calls = [] \<rparr>)"
    and "calls (fold (processMapping syncRecord clock partnerMap
                          (fold (fetchRaintreeRecord fetch) (xs @ (k, mapping) # ys) Map.empty))
                    (xs @ (k, mapping) # ys)
                    \<lparr> results = [], updatedMappings = xs @ (k, mapping) # ys, calls = [] \<rparr>) =
         calls (fold (processMapping syncRecord clock partnerMap
                          (fold (fetchRaintreeRecord fetch) (xs @ ys) Map.empty))
                    (xs @ ys)
                    \<lparr> results = [], updatedMappings = xs @ ys, calls = [] \<rparr>)"
    and "map_of (updatedMappings (fold (processMapping syncRecord clock partnerMap
                          (fold (fetchRaintreeRecord fetch) (xs @ (k, mapping) # ys) Map.empty))
                    (xs @ (k, mapping) # ys)
                    \<lparr> results = [], updatedMappings = xs @ (k, mapping) # ys, calls = [] \<rparr>)) k =
         Some mapping"
proof -
  define rmF where "rmF = fold (fetchRaintreeRecord fetch) (xs @ (k, mapping) # ys) Map.empty"
  define rmL where "rmL = fold (fetchRaintreeRecord fetch) (xs @ ys) Map.empty"
  define PF where "PF = processMapping syncRecord clock partnerMap rmF"
  define PL where "PL = processMapping syncRecord clock partnerMap rmL"
  define initF where "initF = \<lparr> results = [], updatedMappings = xs @ (k, mapping) # ys, calls = [] \<rparr>"
  define initL where "initL = \<lparr> results = [], updatedMappings = xs @ ys, calls = [] \<rparr>"
  have k: "k \<notin> fst ` set xs" "k \<notin> fst ` set ys"
    using assms(1) by auto
  have "rmF k = (case fetch (raintreeId mapping) of
                   Inl e \<Rightarrow> None | Inr None \<Rightarrow> None | Inr (Some r) \<Rightarrow> Some r)"
    unfolding rmF_def
    using fold_fetchRaintreeRecord_entry [OF assms(1), of k mapping fetch Map.empty] by simp
  with assms(2) have skip: "partnerMap k = None \<or> rmF k = None"
    by (auto split: sum.splits option.splits)
  have step: "PF (k, mapping) st = st" for st
    unfolding PF_def using skip by (rule processMapping_skipped)
  have agree: "rmF k' = rmL k'" if "k' \<in> fst ` set (xs @ ys)" for k'
  proof -
    from that k have "k' \<noteq> k" by auto
    then show ?thesis unfolding rmF_def rmL_def by (rule fold_fetchRaintreeRecord_without)
  qed
  have "fold PF (xs @ (k, mapping) # ys) initF = fold PF (xs @ ys) initF"
    by (simp add: step)
  also have "\<dots> = fold PL (xs @ ys) initF"
    unfolding PF_def PL_def using agree by (rule fold_processMapping_raintreeMap_cong)
  finally have eq: "fold PF (xs @ (k, mapping) # ys) initF = fold PL (xs @ ys) initF" .
  have log: "results (fold PL (xs @ ys) initF) = results (fold PL (xs @ ys) initL) \<and>
             calls (fold PL (xs @ ys) initF) = calls (fold PL (xs @ ys) initL)"
    unfolding PL_def by (rule fold_processMapping_log) (simp_all add: initF_def initL_def)
  have "fold PF (xs @ (k, mapping) # ys) initF = fold PF ys (fold PF xs initF)"
    by (simp add: step)
  then have "map_of (updatedMappings (fold PF (xs @ (k, mapping) # ys) initF)) k =
             map_of (xs @ (k, mapping) # ys) k"
    unfolding PF_def by (simp add: fold_processMapping_other_keys k initF_def)
  also have "map_of (xs @ (k, mapping) # ys) k = Some mapping"
    using assms(1) by (intro map_of_is_SomeI) simp_all
  finally have stored: "map_of (updatedMappings (fold PF (xs @ (k, mapping) # ys) initF)) k =
                        Some mapping" .
  have "results (fold PF (xs @ (k, mapping) # ys) initF) = results (fold PL (xs @ ys) initL)"
    unfolding eq by (rule conjunct1 [OF log])
  then show "results (fold (processMapping syncRecord clock partnerMap
                          (fold (fetchRaintreeRecord fetch) (xs @ (k, mapping) # ys) Map.empty))
                    (xs @ (k, mapping) # ys)
                    \<lparr> results = [], updatedMappings = xs @ (k, mapping) # ys, calls = [] \<rparr>) =
         results (fold (processMapping syncRecord clock partnerMap
                          (fold (fetchRaintreeRecord fetch) (xs @ ys) Map.empty))
                    (xs @ ys)
                    \<lparr> results = [], updatedMappings = xs @ ys, calls = [] \<rparr>)"
    unfolding PF_def PL_def rmF_def rmL_def initF_def initL_def .
  have "calls (fold PF (xs @ (k, mapping) # ys) initF) = calls (fold PL (xs @ ys) initL)"
    unfolding eq by (rule conjunct2 [OF log])
  then show "calls (fold (processMapping syncRecord clock partnerMap
                          (fold (fetchRaintreeRecord fetch) (xs @ (k, mapping) # ys) Map.empty))
                    (xs @ (k, mapping) # ys)
                    \<lparr> results = [], updatedMappings = xs @ (k, mapping) # ys, calls = [] \<rparr>) =
         calls (fold (processMapping syncRecord clock partnerMap
                          (fold (fetchRaintreeRecord fetch) (xs @ ys) Map.empty))
                    (xs @ ys)
                    \<lparr> results = [], updatedMappings = xs @ ys, calls = [] \<rparr>)"
    unfolding PF_def PL_def rmF_def rmL_def initF_def initL_def .
  from stored show "map_of (updatedMappings (fold (processMapping syncRecord clock partnerMap
                          (fold (fetchRaintreeRecord fetch) (xs @ (k, mapping) # ys) Map.empty))
                    (xs @ (k, mapping) # ys)
                    \<lparr> results = [], updatedMappings = xs @ (k, mapping) # ys, calls = [] \<rparr>)) k =
         Some mapping"
    unfolding PF_def rmF_def initF_def .
qed

section \<open>A whole pass\<close>

lemma syncOpportunities_entry:
  assumes "distinct (map fst mappings)" and "(pid, mapping) \<in> set mappings"
    and "createWithCredentials env creds = Inr svc"
    and "getOpportunities env svc = Inr partnerOpps"
    and "recordMap partnerOpps pid = Some partnerOpp"
    and "raintreeGetOpportunity env (raintreeId mapping) = Inr (Some raintreeOpp)"
  shows "\<exists>st n. syncOpportunities D env clock creds mappings = Inr st \<and> n < length (results st) \<and>
           results st ! n = fst (syncOpportunityRecord D env (clock n) partnerOpp raintreeOpp mapping svc) \<and>
           map_of (updatedMappings st) pid =
             Some (updatedMapping mapping partnerOpp raintreeOpp
                     (fst (syncOpportunityRecord D env (clock n) partnerOpp raintreeOpp mapping svc)))"
  using loops_entry_processed
          [where syncRecord = "\<lambda>now p r m. syncOpportunityRecord D env now p r m svc"
             and fetch = "raintreeGetOpportunity env" and clock = clock
             and partnerMap = "recordMap partnerOpps" and k = pid,
           OF assms(1,2,5,6)]
  by (simp add: syncOpportunities_def assms(3,4))

lemma syncLeads_entry:
  assumes "distinct (map fst mappings)" and "(pid, mapping) \<in> set mappings"
    and "createWithCredentials env creds = Inr svc"
    and "getLeads env svc = Inr partnerLeads"
    and "recordMap partnerLeads pid = Some partnerLead"
    and "raintreeGetLead env (raintreeId mapping) = Inr (Some raintreeLead)"
  shows "\<exists>st n. syncLeads D env clock creds mappings = Inr st \<and> n < length (results st) \<and>
           results st ! n = fst (syncLeadRecord D env (clock n) partnerLead raintreeLead mapping svc) \<and>
           map_of (updatedMappings st) pid =
             Some (updatedMapping mapping partnerLead raintreeLead
                     (fst (syncLeadRecord D env (clock n) partnerLead raintreeLead mapping svc)))"
  using loops_entry_processed
          [where syncRecord = "\<lambda>now p r m. syncLeadRecord D env now p r m svc"
             and fetch = "raintreeGetLead env" and clock = clock
             and partnerMap = "recordMap partnerLeads" and k = pid,
           OF assms(1,2,5,6)]
  by (simp add: syncLeads_def assms(3,4))

lemma syncOpportunities_directions:
  assumes "syncOpportunities D env clock creds mappings = Inr st"
  shows "Conflict \<notin> syncDirection ` set (results st)"
proof -
  from assms obtain svc partnerOpps where
    st: "st = fold (processMapping (\<lambda>now p r m. syncOpportunityRecord D env now p r m svc) clock
                     (recordMap partnerOpps)
                     (fold (fetchRaintreeRecord (raintreeGetOpportunity env)) mappings Map.empty))
                mappings \<lparr> results = [], updatedMappings = mappings, calls = [] \<rparr>"
    by (auto simp: syncOpportunities_def split: sum.splits)
  show ?thesis
    unfolding st by (rule fold_processMapping_directions) (simp_all add: syncRecord_never_conflict)
qed

lemma syncLeads_directions:
  assumes "syncLeads D env clock creds mappings = Inr st"
  shows "Conflict \<notin> syncDirection ` set (results st)"
proof -
  from assms obtain svc partnerLeads where
    st: "st = fold (processMapping (\<lambda>now p r m. syncLeadRecord D env now p r m svc) clock
                     (recordMap partnerLeads)
                     (fold (fetchRaintreeRecord (raintreeGetLead env)) mappings Map.empty))
                mappings \<lparr> results = [], updatedMappings = mappings, calls = [] \<rparr>"
    by (auto simp: syncLeads_def split: sum.splits)
  show ?thesis
    unfolding st by (rule fold_processMapping_directions) (simp_all add: syncRecord_never_conflict)
qed

text \<open>
  C3, as amended. A pass returns its results and updated mappings exactly when the
  Partner login and the Partner bulk query both succeed, whatever the Raintree fetches
  and the update calls answer; when the login or the bulk query throws, the pass
  rethrows that error to its caller.
\<close>

theorem pass_returns_unless_partner_fetch_throws:
  "((\<exists>st. syncOpportunities D env clock creds mappings = Inr st) \<longleftrightarrow>
      (\<exists>svc partnerOpps. createWithCredentials env creds = Inr svc \<and>
                         getOpportunities env svc = Inr partnerOpps)) \<and>
   (syncOpportunities D env clock creds mappings = Inl e \<longleftrightarrow>
      createWithCredentials env creds = Inl e \<or>
      (\<exists>svc. createWithCredentials env creds = Inr svc \<and> getOpportunities env svc = Inl e)) \<and>
   ((\<exists>st. syncLeads D env clock creds mappings = Inr st) \<longleftrightarrow>
      (\<exists>svc partnerLeads. createWithCredentials env creds = Inr svc \<and>
                          getLeads env svc = Inr partnerLeads)) \<and>
   (syncLeads D env clock creds mappings = Inl e \<longleftrightarrow>
      createWithCredentials env creds = Inl e \<or>
      (\<exists>svc. createWithCredentials env creds = Inr svc \<and> getLeads env svc = Inl e))"
  by (auto simp: syncOpportunities_def syncLeads_def split: sum.splits)

theorem pass_returns_unless_partner_fetch_throws_witness:
  "(\<exists>st. syncOpportunities sampleDates
           (sampleRemote ''2024-01-02T00:00:00.000Z'' ''2024-01-01T00:00:00.000Z'')
           sampleClock sampleCredentials [(''006P1'', sampleMapping ''006P1'' ''006R1'' System)] = Inr st) \<and>
   syncLeads sampleDates
     ((sampleRemote ''2024-01-02T00:00:00.000Z'' ''2024-01-01T00:00:00.000Z'')
        \<lparr> getLeads := (\<lambda>s. Inl ''Salesforce API error: REQUEST_LIMIT_EXCEEDED'') \<rparr>)
     sampleClock sampleCredentials [(''00QP1'', sampleMapping ''00QP1'' ''00QR1'' System)] =
   Inl ''Salesforce API error: REQUEST_LIMIT_EXCEEDED''"
  using pass_returns_unless_partner_fetch_throws
          [of sampleDates "sampleRemote ''2024-01-02T00:00:00.000Z'' ''2024-01-01T00:00:00.000Z''"
              sampleClock sampleCredentials "[(''006P1'', sampleMapping ''006P1'' ''006R1'' System)]"]
        pass_returns_unless_partner_fetch_throws
          [of sampleDates
              "(sampleRemote ''2024-01-02T00:00:00.000Z'' ''2024-01-01T00:00:00.000Z'')
                 \<lparr> getLeads := (\<lambda>s. Inl ''Salesforce API error: REQUEST_LIMIT_EXCEEDED'') \<rparr>"
              sampleClock sampleCredentials "[(''00QP1'', sampleMapping ''00QP1'' ''00QR1'' System)]"
              "''Salesforce API error: REQUEST_LIMIT_EXCEEDED''"]
  by (simp add: sampleRemote_def)

text \<open>
  C3 as stated fails: with a Partner login that throws, the pass throws too.
\<close>

theorem partner_login_failure_is_rethrown:
  "syncLeads sampleDates
     ((sampleRemote ''2024-01-02T00:00:00.000Z'' ''2024-01-01T00:00:00.000Z'')
        \<lparr> createWithCredentials := (\<lambda>c. Inl ''Salesforce authentication failed: expired access/refresh token'') \<rparr>)
     sampleClock sampleCredentials [(''00QP1'', sampleMapping ''00QP1'' ''00QR1'' System)] =
   Inl ''Salesforce authentication failed: expired access/refresh token''"
  by (simp add: syncLeads_def)

text \<open>
  C5, as amended. In a pass whose Partner login and bulk query succeed, a mapping whose
  Partner record is not in the bulk snapshot, or whose Raintree fetch throws or yields
  nothing, is skipped: the results and the update calls of the pass are those of the
  pass without this mapping, and its entry in the returned mappings is the input one.
\<close>

theorem unfetched_mapping_is_skipped:
  assumes "distinct (map fst (before @ (pid, mapping) # after))"
    and "createWithCredentials env creds = Inr svc"
  shows
    "(getOpportunities env svc = Inr partnerOpps \<and>
      (recordMap partnerOpps pid = None \<or>
       (\<forall>raintreeOpp. raintreeGetOpportunity env (raintreeId mapping) \<noteq> Inr (Some raintreeOpp))) \<longrightarrow>
        (\<exists>st st'. syncOpportunities D env clock creds (before @ (pid, mapping) # after) = Inr st \<and>
           syncOpportunities D env clock creds (before @ after) = Inr st' \<and>
           results st = results st' \<and> calls st = calls st' \<and>
           map_of (updatedMappings st) pid = Some mapping)) \<and>
     (getLeads env svc = Inr partnerLeads \<and>
      (recordMap partnerLeads pid = None \<or>
       (\<forall>raintreeLead. raintreeGetLead env (raintreeId mapping) \<noteq> Inr (Some raintreeLead))) \<longrightarrow>
        (\<exists>st st'. syncLeads D env clock creds (before @ (pid, mapping) # after) = Inr st \<and>
           syncLeads D env clock creds (before @ after) = Inr st' \<and>
           results st = results st' \<and> calls st = calls st' \<and>
           map_of (updatedMappings st) pid = Some mapping))"
proof (intro conjI impI; elim conjE)
  assume a: "getOpportunities env svc = Inr partnerOpps"
    "recordMap partnerOpps pid = None \<or>
       (\<forall>raintreeOpp. raintreeGetOpportunity env (raintreeId mapping) \<noteq> Inr (Some raintreeOpp))"
  show "\<exists>st st'. syncOpportunities D env clock creds (before @ (pid, mapping) # after) = Inr st \<and>
           syncOpportunities D env clock creds (before @ after) = Inr st' \<and>
           results st = results st' \<and> calls st = calls st' \<and>
           map_of (updatedMappings st) pid = Some mapping"
    unfolding syncOpportunities_def
    using loops_entry_skipped
            [where xs = before and k = pid and mapping = mapping and ys = after
               and partnerMap = "recordMap partnerOpps" and fetch = "raintreeGetOpportunity env",
             OF assms(1) a(2)]
    by (simp only: assms(2) a(1) sum.case) blast
next
  assume a: "getLeads env svc = Inr partnerLeads"
    "recordMap partnerLeads pid = None \<or>
       (\<forall>raintreeLead. raintreeGetLead env (raintreeId mapping) \<noteq> Inr (Some raintreeLead))"
  show "\<exists>st st'. syncLeads D env clock creds (before @ (pid, mapping) # after) = Inr st \<and>
           syncLeads D env clock creds (before @ after) = Inr st' \<and>
           results st = results st' \<and> calls st = calls st' \<and>
           map_of (updatedMappings st) pid = Some mapping"
    unfolding syncLeads_def
    using loops_entry_skipped
            [where xs = before and k = pid and mapping = mapping and ys = after
               and partnerMap = "recordMap partnerLeads" and fetch = "raintreeGetLead env",
             OF assms(1) a(2)]
    by (simp only: assms(2) a(1) sum.case) blast
qed

theorem unfetched_mapping_is_skipped_witness:
  "distinct (map fst ([(''006P1'', sampleMapping ''006P1'' ''006R1'' System)] @
                      (''006P9'', sampleMapping ''006P9'' ''006R9'' System) # [])) \<and>
   createWithCredentials (sampleRemote ''2024-01-02T00:00:00.000Z'' ''2024-01-01T00:00:00.000Z'')
     sampleCredentials = Inr sampleService \<and>
   getOpportunities (sampleRemote ''2024-01-02T00:00:00.000Z'' ''2024-01-01T00:00:00.000Z'')
     sampleService = Inr [sampleOpportunity ''006P1'' ''2024-01-02T00:00:00.000Z''] \<and>
   recordMap [sampleOpportunity ''006P1'' ''2024-01-02T00:00:00.000Z''] ''006P9'' = None \<and>
   (\<exists>st st'. syncOpportunities sampleDates
                (sampleRemote ''2024-01-02T00:00:00.000Z'' ''2024-01-01T00:00:00.000Z'')
                sampleClock sampleCredentials
                ([(''006P1'', sampleMapping ''006P1'' ''006R1'' System)] @
                 (''006P9'', sampleMapping ''006P9'' ''006R9'' System) # []) = Inr st \<and>
      syncOpportunities sampleDates
                (sampleRemote ''2024-01-02T00:00:00.000Z'' ''2024-01-01T00:00:00.000Z'')
                sampleClock sampleCredentials
                ([(''006P1'', sampleMapping ''006P1'' ''006R1'' System)] @ []) = Inr st' \<and>
      results st = results st' \<and> calls st = calls st' \<and>
      map_of (updatedMappings st) ''006P9'' = Some (sampleMapping ''006P9'' ''006R9'' System)) \<and>
   distinct (map fst ([] @ (''00QP1'', sampleMapping ''00QP1'' ''00QR9'' System) # [])) \<and>
   getLeads (sampleRemote ''2024-01-02T00:00:00.000Z'' ''2024-01-01T00:00:00.000Z'')
     sampleService = Inr [sampleLead ''00QP1'' ''2024-01-02T00:00:00.000Z''] \<and>
   (\<forall>raintreeLead.
      raintreeGetLead (sampleRemote ''2024-01-02T00:00:00.000Z'' ''2024-01-01T00:00:00.000Z'')
        (raintreeId (sampleMapping ''00QP1'' ''00QR9'' System)) \<noteq> Inr (Some raintreeLead)) \<and>
   (\<exists>st st'. syncLeads sampleDates
                (sampleRemote ''2024-01-02T00:00:00.000Z'' ''2024-01-01T00:00:00.000Z'')
                sampleClock sampleCredentials
                ([] @ (''00QP1'', sampleMapping ''00QP1'' ''00QR9'' System) # []) = Inr st \<and>
      syncLeads sampleDates
                (sampleRemote ''2024-01-02T00:00:00.000Z'' ''2024-01-01T00:00:00.000Z'')
                sampleClock sampleCredentials ([] @ []) = Inr st' \<and>
      results st = results st' \<and> calls st = calls st' \<and>
      map_of (updatedMappings st) ''00QP1'' = Some (sampleMapping ''00QP1'' ''00QR9'' System))"
proof -
  let ?env = "sampleRemote ''2024-01-02T00:00:00.000Z'' ''2024-01-01T00:00:00.000Z''"
  have c: "createWithCredentials ?env sampleCredentials = Inr sampleService"
    by (simp add: sampleRemote_def)
  have h1: "distinct (map fst ([(''006P1'', sampleMapping ''006P1'' ''006R1'' System)] @
                               (''006P9'', sampleMapping ''006P9'' ''006R9'' System) # []))"
    by simp
  have r1: "recordMap [sampleOpportunity ''006P1'' ''2024-01-02T00:00:00.000Z''] ''006P9'' = None"
    by (simp add: recordMap_def sampleOpportunity_def)
  have o1: "getOpportunities ?env sampleService =
              Inr [sampleOpportunity ''006P1'' ''2024-01-02T00:00:00.000Z'']"
    by (simp add: sampleRemote_def)
  have h2: "distinct (map fst ([] @ (''00QP1'', sampleMapping ''00QP1'' ''00QR9'' System) # []))"
    by simp
  have o2: "getLeads ?env sampleService = Inr [sampleLead ''00QP1'' ''2024-01-02T00:00:00.000Z'']"
    by (simp add: sampleRemote_def)
  have f2: "\<forall>raintreeLead. raintreeGetLead ?env
              (raintreeId (sampleMapping ''00QP1'' ''00QR9'' System)) \<noteq> Inr (Some raintreeLead)"
    by (simp add: sampleRemote_def sampleMapping_sel)
  from o1 r1
  have g1: "getOpportunities ?env sampleService =
              Inr [sampleOpportunity ''006P1'' ''2024-01-02T00:00:00.000Z''] \<and>
            (recordMap [sampleOpportunity ''006P1'' ''2024-01-02T00:00:00.000Z''] ''006P9'' = None \<or>
             (\<forall>raintreeOpp. raintreeGetOpportunity ?env
                 (raintreeId (sampleMapping ''006P9'' ''006R9'' System)) \<noteq> Inr (Some raintreeOpp)))"
    by blast
  from o2 f2
  have g2: "getLeads ?env sampleService = Inr [sampleLead ''00QP1'' ''2024-01-02T00:00:00.000Z''] \<and>
            (recordMap [sampleLead ''00QP1'' ''2024-01-02T00:00:00.000Z''] ''00QP1'' = None \<or>
             (\<forall>raintreeLead. raintreeGetLead ?env
                 (raintreeId (sampleMapping ''00QP1'' ''00QR9'' System)) \<noteq> Inr (Some raintreeLead)))"
    by blast
  from unfetched_mapping_is_skipped
         [where D = sampleDates and clock = sampleClock, OF h1 c, THEN conjunct1, rule_format, OF g1]
       unfetched_mapping_is_skipped
         [where D = sampleDates and clock = sampleClock, OF h2 c, THEN conjunct2, rule_format, OF g2]
  show ?thesis using c h1 h2 o1 r1 o2 f2 by blast
qed

text \<open>
  C5 as stated fails for a Partner fetch error: the bulk query is the only Partner
  fetch, and when it throws the pass returns nothing and reports the error.
\<close>

theorem partner_query_failure_skips_nothing:
  "syncOpportunities sampleDates
     ((sampleRemote ''2024-01-02T00:00:00.000Z'' ''2024-01-01T00:00:00.000Z'')
        \<lparr> getOpportunities := (\<lambda>s. Inl ''Failed to fetch opportunities: timeout of 10000ms exceeded'') \<rparr>)
     sampleClock sampleCredentials [(''006P1'', sampleMapping ''006P1'' ''006R1'' System)] =
   Inl ''Failed to fetch opportunities: timeout of 10000ms exceeded''"
  by (simp add: syncOpportunities_def sampleRemote_def)

text \<open>
  C7, as amended. For a processed mapping on which the decision is to do nothing, the
  pass records a successful result with direction none and leaves \<open>lastSyncSource\<close> as
  it was; the two stored dates are overwritten with the dates observed on the two
  records, and \<open>lastSyncTime\<close> becomes the result's timestamp.
\<close>

theorem noop_is_recorded_and_dates_are_stored:
  assumes "distinct (map fst mappings)" and "(pid, mapping) \<in> set mappings"
    and "createWithCredentials env creds = Inr svc"
  shows
    "(getOpportunities env svc = Inr partnerOpps \<and> recordMap partnerOpps pid = Some partnerOpp \<and>
      raintreeGetOpportunity env (raintreeId mapping) = Inr (Some raintreeOpp) \<and>
      decide D mapping partnerOpp raintreeOpp = (NoDirection, False) \<longrightarrow>
        (\<exists>st n. syncOpportunities D env clock creds mappings = Inr st \<and> n < length (results st) \<and>
           results st ! n =
             \<lparr> recordId = partnerId mapping, recordName = opportunityName partnerOpp,
               syncDirection = NoDirection, success = True, error = None, timestamp = clock n \<rparr> \<and>
           map_of (updatedMappings st) pid =
             Some (mapping\<lparr> partnerLastModified := lastModifiedOrCreated partnerOpp,
                           raintreeLastModified := lastModifiedOrCreated raintreeOpp,
                           lastSyncTime := clock n \<rparr>))) \<and>
     (getLeads env svc = Inr partnerLeads \<and> recordMap partnerLeads pid = Some partnerLead \<and>
      raintreeGetLead env (raintreeId mapping) = Inr (Some raintreeLead) \<and>
      decide D mapping partnerLead raintreeLead = (NoDirection, False) \<longrightarrow>
        (\<exists>st n. syncLeads D env clock creds mappings = Inr st \<and> n < length (results st) \<and>
           results st ! n =
             \<lparr> recordId = partnerId mapping, recordName = leadName partnerLead,
               syncDirection = NoDirection, success = True, error = None, timestamp = clock n \<rparr> \<and>
           map_of (updatedMappings st) pid =
             Some (mapping\<lparr> partnerLastModified := lastModifiedOrCreated partnerLead,
                           raintreeLastModified := lastModifiedOrCreated raintreeLead,
                           lastSyncTime := clock n \<rparr>)))"
proof (intro conjI impI; elim conjE)
  assume a: "getOpportunities env svc = Inr partnerOpps" "recordMap partnerOpps pid = Some partnerOpp"
    "raintreeGetOpportunity env (raintreeId mapping) = Inr (Some raintreeOpp)"
    "decide D mapping partnerOpp raintreeOpp = (NoDirection, False)"
  from syncOpportunities_entry [OF assms a(1,2,3), of D clock]
  show "\<exists>st n. syncOpportunities D env clock creds mappings = Inr st \<and> n < length (results st) \<and>
           results st ! n =
             \<lparr> recordId = partnerId mapping, recordName = opportunityName partnerOpp,
               syncDirection = NoDirection, success = True, error = None, timestamp = clock n \<rparr> \<and>
           map_of (updatedMappings st) pid =
             Some (mapping\<lparr> partnerLastModified := lastModifiedOrCreated partnerOpp,
                           raintreeLastModified := lastModifiedOrCreated raintreeOpp,
                           lastSyncTime := clock n \<rparr>)"
    by (simp add: syncOpportunityRecord_none [OF a(4)] updatedMapping_def)
next
  assume a: "getLeads env svc = Inr partnerLeads" "recordMap partnerLeads pid = Some partnerLead"
    "raintreeGetLead env (raintreeId mapping) = Inr (Some raintreeLead)"
    "decide D mapping partnerLead raintreeLead = (NoDirection, False)"
  from syncLeads_entry [OF assms a(1,2,3), of D clock]
  show "\<exists>st n. syncLeads D env clock creds mappings = Inr st \<and> n < length (results st) \<and>
           results st ! n =
             \<lparr> recordId = partnerId mapping, recordName = leadName partnerLead,
               syncDirection = NoDirection, success = True, error = None, timestamp = clock n \<rparr> \<and>
           map_of (updatedMappings st) pid =
             Some (mapping\<lparr> partnerLastModified := lastModifiedOrCreated partnerLead,
                           raintreeLastModified := lastModifiedOrCreated raintreeLead,
                           lastSyncTime := clock n \<rparr>)"
    by (simp add: syncLeadRecord_none [OF a(4)] updatedMapping_def)
qed

theorem noop_is_recorded_and_dates_are_stored_witness:
  "distinct (map fst [(''006P1'', sampleMapping ''006P1'' ''006R1'' Raintree)]) \<and>
   (''006P1'', sampleMapping ''006P1'' ''006R1'' Raintree) \<in>
     set [(''006P1'', sampleMapping ''006P1'' ''006R1'' Raintree)] \<and>
   createWithCredentials (sampleRemote ''2024-01-02T00:00:00.000Z'' ''2024-01-01T00:00:00.000Z'')
     sampleCredentials = Inr sampleService \<and>
   getOpportunities (sampleRemote ''2024-01-02T00:00:00.000Z'' ''2024-01-01T00:00:00.000Z'')
     sampleService = Inr [sampleOpportunity ''006P1'' ''2024-01-02T00:00:00.000Z''] \<and>
   recordMap [sampleOpportunity ''006P1'' ''2024-01-02T00:00:00.000Z''] ''006P1'' =
     Some (sampleOpportunity ''006P1'' ''2024-01-02T00:00:00.000Z'') \<and>
   raintreeGetOpportunity (sampleRemote ''2024-01-02T00:00:00.000Z'' ''2024-01-01T00:00:00.000Z'')
     (raintreeId (sampleMapping ''006P1'' ''006R1'' Raintree)) =
     Inr (Some (sampleOpportunity ''006R1'' ''2024-01-01T00:00:00.000Z'')) \<and>
   decide sampleDates (sampleMapping ''006P1'' ''006R1'' Raintree)
     (sampleOpportunity ''006P1'' ''2024-01-02T00:00:00.000Z'')
     (sampleOpportunity ''006R1'' ''2024-01-01T00:00:00.000Z'') = (NoDirection, False) \<and>
   (\<exists>st n. syncOpportunities sampleDates
              (sampleRemote ''2024-01-02T00:00:00.000Z'' ''2024-01-01T00:00:00.000Z'')
              sampleClock sampleCredentials [(''006P1'', sampleMapping ''006P1'' ''006R1'' Raintree)] =
            Inr st \<and> n < length (results st) \<and>
      results st ! n =
        \<lparr> recordId = partnerId (sampleMapping ''006P1'' ''006R1'' Raintree),
          recordName = opportunityName (sampleOpportunity ''006P1'' ''2024-01-02T00:00:00.000Z''),
          syncDirection = NoDirection, success = True, error = None, timestamp = sampleClock n \<rparr> \<and>
      map_of (updatedMappings st) ''006P1'' =
        Some ((sampleMapping ''006P1'' ''006R1'' Raintree)
                \<lparr> partnerLastModified :=
                    lastModifiedOrCreated (sampleOpportunity ''006P1'' ''2024-01-02T00:00:00.000Z''),
                  raintreeLastModified :=
                    lastModifiedOrCreated (sampleOpportunity ''006R1'' ''2024-01-01T00:00:00.000Z''),
                  lastSyncTime := sampleClock n \<rparr>))"
proof -
  have h: "distinct (map fst [(''006P1'', sampleMapping ''006P1'' ''006R1'' Raintree)])"
    "(''006P1'', sampleMapping ''006P1'' ''006R1'' Raintree) \<in>
       set [(''006P1'', sampleMapping ''006P1'' ''006R1'' Raintree)]"
    "createWithCredentials (sampleRemote ''2024-01-02T00:00:00.000Z'' ''2024-01-01T00:00:00.000Z'')
       sampleCredentials = Inr sampleService"
    by (simp_all add: sampleRemote_def)
  have g: "getOpportunities (sampleRemote ''2024-01-02T00:00:00.000Z'' ''2024-01-01T00:00:00.000Z'')
       sampleService = Inr [sampleOpportunity ''006P1'' ''2024-01-02T00:00:00.000Z''] \<and>
     recordMap [sampleOpportunity ''006P1'' ''2024-01-02T00:00:00.000Z''] ''006P1'' =
       Some (sampleOpportunity ''006P1'' ''2024-01-02T00:00:00.000Z'') \<and>
     raintreeGetOpportunity (sampleRemote ''2024-01-02T00:00:00.000Z'' ''2024-01-01T00:00:00.000Z'')
       (raintreeId (sampleMapping ''006P1'' ''006R1'' Raintree)) =
       Inr (Some (sampleOpportunity ''006R1'' ''2024-01-01T00:00:00.000Z'')) \<and>
     decide sampleDates (sampleMapping ''006P1'' ''006R1'' Raintree)
       (sampleOpportunity ''006P1'' ''2024-01-02T00:00:00.000Z'')
       (sampleOpportunity ''006R1'' ''2024-01-01T00:00:00.000Z'') = (NoDirection, False)"
    by (simp add: sampleRemote_def recordMap_def sampleOpportunity_def [of "''006P1''"]
          sampleMapping_sel decide_def sample_partnerHasNewChanges sample_raintreeHasNewChanges)
  from noop_is_recorded_and_dates_are_stored [OF h, THEN conjunct1, rule_format, OF g]
  show ?thesis using h g by blast
qed

text \<open>
  C7 as stated fails: a Partner edit held back by the guard (last sync from Raintree)
  is decided as nothing to do, and still the stored Partner date moves to the observed
  one.
\<close>

theorem noop_overwrites_stored_dates:
  "decide sampleDates (sampleMapping ''00QP1'' ''00QR1'' Raintree)
     (sampleLead ''00QP1'' ''2024-01-02T00:00:00.000Z'')
     (sampleLead ''00QR1'' ''2024-01-01T00:00:00.000Z'') = (NoDirection, False) \<and>
   syncLeads sampleDates (sampleRemote ''2024-01-02T00:00:00.000Z'' ''2024-01-01T00:00:00.000Z'')
     sampleClock sampleCredentials [(''00QP1'', sampleMapping ''00QP1'' ''00QR1'' Raintree)] =
   Inr \<lparr> results =
           [\<lparr> recordId = ''00QP1'', recordName = ''Ada Moss'', syncDirection = NoDirection,
              success = True, error = None, timestamp = ''2024-01-04T00:00:00.000Z'' \<rparr>],
         updatedMappings =
           [(''00QP1'',
             \<lparr> partnerId = ''00QP1'', raintreeId = ''00QR1'',
               partnerLastModified = Some ''2024-01-02T00:00:00.000Z'',
               raintreeLastModified = Some ''2024-01-01T00:00:00.000Z'',
               lastSyncSource = Raintree, lastSyncTime = ''2024-01-04T00:00:00.000Z'' \<rparr>)],
         calls = [] \<rparr> \<and>
   partnerLastModified (sampleMapping ''00QP1'' ''00QR1'' Raintree) = Some ''2024-01-01T00:00:00.000Z''"
  by (simp add: pass_eval sample_eval)

text \<open>
  C4, as amended. For a processed mapping whose update call throws, the pass records
  a failed result carrying the error message and the attempted direction; the mapping
  it returns is written like that of any processed mapping: the two stored dates become
  the observed ones, \<open>lastSyncSource\<close> the side that was being propagated and
  \<open>lastSyncTime\<close> the result's timestamp.
\<close>

theorem failed_update_is_reported_and_stored:
  assumes "distinct (map fst mappings)" and "(pid, mapping) \<in> set mappings"
    and "createWithCredentials env creds = Inr svc"
  shows
    "(getOpportunities env svc = Inr partnerOpps \<and> recordMap partnerOpps pid = Some partnerOpp \<and>
      raintreeGetOpportunity env (raintreeId mapping) = Inr (Some raintreeOpp) \<and>
      (decide D mapping partnerOpp raintreeOpp = (PartnerToRaintree, True) \<and> winner = Partner \<and>
         raintreeUpdateOpportunity env (raintreeId mapping) (opportunityPayload partnerOpp) = Some message \<or>
       decide D mapping partnerOpp raintreeOpp = (RaintreeToPartner, True) \<and> winner = Raintree \<and>
         updateOpportunity env svc (partnerId mapping) (opportunityPayload raintreeOpp) = Some message) \<longrightarrow>
        (\<exists>st n. syncOpportunities D env clock creds mappings = Inr st \<and> n < length (results st) \<and>
           results st ! n =
             \<lparr> recordId = partnerId mapping, recordName = opportunityName partnerOpp,
               syncDirection = fst (decide D mapping partnerOpp raintreeOpp), success = False,
               error = Some message, timestamp = clock n \<rparr> \<and>
           map_of (updatedMappings st) pid =
             Some (mapping\<lparr> partnerLastModified := lastModifiedOrCreated partnerOpp,
                           raintreeLastModified := lastModifiedOrCreated raintreeOpp,
                           lastSyncSource := winner,
                           lastSyncTime := clock n \<rparr>))) \<and>
     (getLeads env svc = Inr partnerLeads \<and> recordMap partnerLeads pid = Some partnerLead \<and>
      raintreeGetLead env (raintreeId mapping) = Inr (Some raintreeLead) \<and>
      (decide D mapping partnerLead raintreeLead = (PartnerToRaintree, True) \<and> winner = Partner \<and>
         raintreeUpdateLead env (raintreeId mapping) (leadPayload partnerLead) = Some message \<or>
       decide D mapping partnerLead raintreeLead = (RaintreeToPartner, True) \<and> winner = Raintree \<and>
         updateLead env svc (partnerId mapping) (leadPayload raintreeLead) = Some message) \<longrightarrow>
        (\<exists>st n. syncLeads D env clock creds mappings = Inr st \<and> n < length (results st) \<and>
           results st ! n =
             \<lparr> recordId = partnerId mapping, recordName = leadName partnerLead,
               syncDirection = fst (decide D mapping partnerLead raintreeLead), success = False,
               error = Some message, timestamp = clock n \<rparr> \<and>
           map_of (updatedMappings st) pid =
             Some (mapping\<lparr> partnerLastModified := lastModifiedOrCreated partnerLead,
                           raintreeLastModified := lastModifiedOrCreated raintreeLead,
                           lastSyncSource := winner,
                           lastSyncTime := clock n \<rparr>)))"
proof (intro conjI impI; elim conjE)
  assume a: "getOpportunities env svc = Inr partnerOpps" "recordMap partnerOpps pid = Some partnerOpp"
    "raintreeGetOpportunity env (raintreeId mapping) = Inr (Some raintreeOpp)"
  assume b: "decide D mapping partnerOpp raintreeOpp = (PartnerToRaintree, True) \<and> winner = Partner \<and>
         raintreeUpdateOpportunity env (raintreeId mapping) (opportunityPayload partnerOpp) = Some message \<or>
       decide D mapping partnerOpp raintreeOpp = (RaintreeToPartner, True) \<and> winner = Raintree \<and>
         updateOpportunity env svc (partnerId mapping) (opportunityPayload raintreeOpp) = Some message"
  from syncOpportunities_entry [OF assms a(1,2,3), of D clock]
  obtain st n where sn: "syncOpportunities D env clock creds mappings = Inr st" "n < length (results st)"
    "results st ! n = fst (syncOpportunityRecord D env (clock n) partnerOpp raintreeOpp mapping svc)"
    "map_of (updatedMappings st) pid = Some (updatedMapping mapping partnerOpp raintreeOpp (results st ! n))"
    by auto
  from b have res: "results st ! n =
          \<lparr> recordId = partnerId mapping, recordName = opportunityName partnerOpp,
            syncDirection = fst (decide D mapping partnerOpp raintreeOpp), success = False,
            error = Some message, timestamp = clock n \<rparr>"
    unfolding sn(3) by (auto simp: syncRecord_by_decision)
  from b have "updatedMapping mapping partnerOpp raintreeOpp (results st ! n) =
          mapping\<lparr> partnerLastModified := lastModifiedOrCreated partnerOpp,
                   raintreeLastModified := lastModifiedOrCreated raintreeOpp,
                   lastSyncSource := winner, lastSyncTime := clock n \<rparr>"
    unfolding res by (auto simp: updatedMapping_def)
  with sn res
  show "\<exists>st n. syncOpportunities D env clock creds mappings = Inr st \<and> n < length (results st) \<and>
           results st ! n =
             \<lparr> recordId = partnerId mapping, recordName = opportunityName partnerOpp,
               syncDirection = fst (decide D mapping partnerOpp raintreeOpp), success = False,
               error = Some message, timestamp = clock n \<rparr> \<and>
           map_of (updatedMappings st) pid =
             Some (mapping\<lparr> partnerLastModified := lastModifiedOrCreated partnerOpp,
                           raintreeLastModified := lastModifiedOrCreated raintreeOpp,
                           lastSyncSource := winner,
                           lastSyncTime := clock n \<rparr>)"
    by (intro exI [of _ st] exI [of _ n]) simp
next
  assume a: "getLeads env svc = Inr partnerLeads" "recordMap partnerLeads pid = Some partnerLead"
    "raintreeGetLead env (raintreeId mapping) = Inr (Some raintreeLead)"
  assume b: "decide D mapping partnerLead raintreeLead = (PartnerToRaintree, True) \<and> winner = Partner \<and>
         raintreeUpdateLead env (raintreeId mapping) (leadPayload partnerLead) = Some message \<or>
       decide D mapping partnerLead raintreeLead = (RaintreeToPartner, True) \<and> winner = Raintree \<and>
         updateLead env svc (partnerId mapping) (leadPayload raintreeLead) = Some message"
  from syncLeads_entry [OF assms a(1,2,3), of D clock]
  obtain st n where sn: "syncLeads D env clock creds mappings = Inr st" "n < length (results st)"
    "results st ! n = fst (syncLeadRecord D env (clock n) partnerLead raintreeLead mapping svc)"
    "map_of (updatedMappings st) pid = Some (updatedMapping mapping partnerLead raintreeLead (results st ! n))"
    by auto
  from b have res: "results st ! n =
          \<lparr> recordId = partnerId mapping, recordName = leadName partnerLead,
            syncDirection = fst (decide D mapping partnerLead raintreeLead), success = False,
            error = Some message, timestamp = clock n \<rparr>"
    unfolding sn(3) by (auto simp: syncRecord_by_decision)
  from b have "updatedMapping mapping partnerLead raintreeLead (results st ! n) =
          mapping\<lparr> partnerLastModified := lastModifiedOrCreated partnerLead,
                   raintreeLastModified := lastModifiedOrCreated raintreeLead,
                   lastSyncSource := winner, lastSyncTime := clock n \<rparr>"
    unfolding res by (auto simp: updatedMapping_def)
  with sn res
  show "\<exists>st n. syncLeads D env clock creds mappings = Inr st \<and> n < length (results st) \<and>
           results st ! n =
             \<lparr> recordId = partnerId mapping, recordName = leadName partnerLead,
               syncDirection = fst (decide D mapping partnerLead raintreeLead), success = False,
               error = Some message, timestamp = clock n \<rparr> \<and>
           map_of (updatedMappings st) pid =
             Some (mapping\<lparr> partnerLastModified := lastModifiedOrCreated partnerLead,
                           raintreeLastModified := lastModifiedOrCreated raintreeLead,
                           lastSyncSource := winner,
                           lastSyncTime := clock n \<rparr>)"
    by (intro exI [of _ st] exI [of _ n]) simp
qed

theorem failed_update_is_reported_and_stored_witness:
  "createWithCredentials
     ((sampleRemote ''2024-01-02T00:00:00.000Z'' ''2024-01-01T00:00:00.000Z'')
        \<lparr> raintreeUpdateOpportunity := (\<lambda>i d. Some ''Salesforce API error: UNABLE_TO_LOCK_ROW'') \<rparr>)
     sampleCredentials = Inr sampleService \<and>
   decide sampleDates (sampleMapping ''006P1'' ''006R1'' System)
     (sampleOpportunity ''006P1'' ''2024-01-02T00:00:00.000Z'')
     (sampleOpportunity ''006R1'' ''2024-01-01T00:00:00.000Z'') = (PartnerToRaintree, True) \<and>
   raintreeUpdateOpportunity
     ((sampleRemote ''2024-01-02T00:00:00.000Z'' ''2024-01-01T00:00:00.000Z'')
        \<lparr> raintreeUpdateOpportunity := (\<lambda>i d. Some ''Salesforce API error: UNABLE_TO_LOCK_ROW'') \<rparr>)
     (raintreeId (sampleMapping ''006P1'' ''006R1'' System))
     (opportunityPayload (sampleOpportunity ''006P1'' ''2024-01-02T00:00:00.000Z'')) =
     Some ''Salesforce API error: UNABLE_TO_LOCK_ROW'' \<and>
   (\<exists>st n. syncOpportunities sampleDates
              ((sampleRemote ''2024-01-02T00:00:00.000Z'' ''2024-01-01T00:00:00.000Z'')
                 \<lparr> raintreeUpdateOpportunity := (\<lambda>i d. Some ''Salesforce API error: UNABLE_TO_LOCK_ROW'') \<rparr>)
              sampleClock sampleCredentials [(''006P1'', sampleMapping ''006P1'' ''006R1'' System)] =
            Inr st \<and> n < length (results st) \<and>
      results st ! n =
        \<lparr> recordId = partnerId (sampleMapping ''006P1'' ''006R1'' System),
          recordName = opportunityName (sampleOpportunity ''006P1'' ''2024-01-02T00:00:00.000Z''),
          syncDirection = fst (decide sampleDates (sampleMapping ''006P1'' ''006R1'' System)
                                 (sampleOpportunity ''006P1'' ''2024-01-02T00:00:00.000Z'')
                                 (sampleOpportunity ''006R1'' ''2024-01-01T00:00:00.000Z'')),
          success = False, error = Some ''Salesforce API error: UNABLE_TO_LOCK_ROW'',
          timestamp = sampleClock n \<rparr> \<and>
      map_of (updatedMappings st) ''006P1'' =
        Some ((sampleMapping ''006P1'' ''006R1'' System)
                \<lparr> partnerLastModified :=
                    lastModifiedOrCreated (sampleOpportunity ''006P1'' ''2024-01-02T00:00:00.000Z''),
                  raintreeLastModified :=
                    lastModifiedOrCreated (sampleOpportunity ''006R1'' ''2024-01-01T00:00:00.000Z''),
                  lastSyncSource := Partner,
                  lastSyncTime := sampleClock n \<rparr>)) \<and>
   decide sampleDates (sampleMapping ''00QP1'' ''00QR1'' System)
     (sampleLead ''00QP1'' ''2024-01-01T00:00:00.000Z'')
     (sampleLead ''00QR1'' ''2024-01-02T00:00:00.000Z'') = (RaintreeToPartner, True) \<and>
   updateLead
     ((sampleRemote ''2024-01-01T00:00:00.000Z'' ''2024-01-02T00:00:00.000Z'')
        \<lparr> updateLead := (\<lambda>s i d. Some ''Salesforce API error: ENTITY_IS_LOCKED'') \<rparr>)
     sampleService (partnerId (sampleMapping ''00QP1'' ''00QR1'' System))
     (leadPayload (sampleLead ''00QR1'' ''2024-01-02T00:00:00.000Z'')) =
     Some ''Salesforce API error: ENTITY_IS_LOCKED'' \<and>
   (\<exists>st n. syncLeads sampleDates
              ((sampleRemote ''2024-01-01T00:00:00.000Z'' ''2024-01-02T00:00:00.000Z'')
                 \<lparr> updateLead := (\<lambda>s i d. Some ''Salesforce API error: ENTITY_IS_LOCKED'') \<rparr>)
              sampleClock sampleCredentials [(''00QP1'', sampleMapping ''00QP1'' ''00QR1'' System)] =
            Inr st \<and> n < length (results st) \<and>
      results st ! n =
        \<lparr> recordId = partnerId (sampleMapping ''00QP1'' ''00QR1'' System),
          recordName = leadName (sampleLead ''00QP1'' ''2024-01-01T00:00:00.000Z''),
          syncDirection = fst (decide sampleDates (sampleMapping ''00QP1'' ''00QR1'' System)
                                 (sampleLead ''00QP1'' ''2024-01-01T00:00:00.000Z'')
                                 (sampleLead ''00QR1'' ''2024-01-02T00:00:00.000Z'')),
          success = False, error = Some ''Salesforce API error: ENTITY_IS_LOCKED'',
          timestamp = sampleClock n \<rparr> \<and>
      map_of (updatedMappings st) ''00QP1'' =
        Some ((sampleMapping ''00QP1'' ''00QR1'' System)
                \<lparr> partnerLastModified :=
                    lastModifiedOrCreated (sampleLead ''00QP1'' ''2024-01-01T00:00:00.000Z''),
                  raintreeLastModified :=
                    lastModifiedOrCreated (sampleLead ''00QR1'' ''2024-01-02T00:00:00.000Z''),
                  lastSyncSource := Raintree,
                  lastSyncTime := sampleClock n \<rparr>))"
proof -
  let ?env1 = "(sampleRemote ''2024-01-02T00:00:00.000Z'' ''2024-01-01T00:00:00.000Z'')
                 \<lparr> raintreeUpdateOpportunity := (\<lambda>i d. Some ''Salesforce API error: UNABLE_TO_LOCK_ROW'') \<rparr>"
  let ?env2 = "(sampleRemote ''2024-01-01T00:00:00.000Z'' ''2024-01-02T00:00:00.000Z'')
                 \<lparr> updateLead := (\<lambda>s i d. Some ''Salesforce API error: ENTITY_IS_LOCKED'') \<rparr>"
  let ?m1 = "sampleMapping ''006P1'' ''006R1'' System"
  let ?m2 = "sampleMapping ''00QP1'' ''00QR1'' System"
  have h1: "distinct (map fst [(''006P1'', ?m1)])" "(''006P1'', ?m1) \<in> set [(''006P1'', ?m1)]"
    "createWithCredentials ?env1 sampleCredentials = Inr sampleService"
    by (simp_all add: sampleRemote_def)
  have h2: "distinct (map fst [(''00QP1'', ?m2)])" "(''00QP1'', ?m2) \<in> set [(''00QP1'', ?m2)]"
    "createWithCredentials ?env2 sampleCredentials = Inr sampleService"
    by (simp_all add: sampleRemote_def)
  have d1: "decide sampleDates ?m1 (sampleOpportunity ''006P1'' ''2024-01-02T00:00:00.000Z'')
              (sampleOpportunity ''006R1'' ''2024-01-01T00:00:00.000Z'') = (PartnerToRaintree, True)"
    by (rule sample_decide)
  have u1: "raintreeUpdateOpportunity ?env1 (raintreeId ?m1)
              (opportunityPayload (sampleOpportunity ''006P1'' ''2024-01-02T00:00:00.000Z'')) =
            Some ''Salesforce API error: UNABLE_TO_LOCK_ROW''"
    by simp
  have d2: "decide sampleDates ?m2 (sampleLead ''00QP1'' ''2024-01-01T00:00:00.000Z'')
              (sampleLead ''00QR1'' ''2024-01-02T00:00:00.000Z'') = (RaintreeToPartner, True)"
    by (rule sample_decide)
  have u2: "updateLead ?env2 sampleService (partnerId ?m2)
              (leadPayload (sampleLead ''00QR1'' ''2024-01-02T00:00:00.000Z'')) =
            Some ''Salesforce API error: ENTITY_IS_LOCKED''"
    by simp
  have g1: "getOpportunities ?env1 sampleService =
              Inr [sampleOpportunity ''006P1'' ''2024-01-02T00:00:00.000Z''] \<and>
            recordMap [sampleOpportunity ''006P1'' ''2024-01-02T00:00:00.000Z''] ''006P1'' =
              Some (sampleOpportunity ''006P1'' ''2024-01-02T00:00:00.000Z'') \<and>
            raintreeGetOpportunity ?env1 (raintreeId ?m1) =
              Inr (Some (sampleOpportunity ''006R1'' ''2024-01-01T00:00:00.000Z'')) \<and>
            (decide sampleDates ?m1 (sampleOpportunity ''006P1'' ''2024-01-02T00:00:00.000Z'')
               (sampleOpportunity ''006R1'' ''2024-01-01T00:00:00.000Z'') = (PartnerToRaintree, True) \<and>
             Partner = Partner \<and>
             raintreeUpdateOpportunity ?env1 (raintreeId ?m1)
               (opportunityPayload (sampleOpportunity ''006P1'' ''2024-01-02T00:00:00.000Z'')) =
               Some ''Salesforce API error: UNABLE_TO_LOCK_ROW'' \<or>
             decide sampleDates ?m1 (sampleOpportunity ''006P1'' ''2024-01-02T00:00:00.000Z'')
               (sampleOpportunity ''006R1'' ''2024-01-01T00:00:00.000Z'') = (RaintreeToPartner, True) \<and>
             Partner = Raintree \<and>
             updateOpportunity ?env1 sampleService (partnerId ?m1)
               (opportunityPayload (sampleOpportunity ''006R1'' ''2024-01-01T00:00:00.000Z'')) =
               Some ''Salesforce API error: UNABLE_TO_LOCK_ROW'')"
    using d1 by (simp add: sampleRemote_def recordMap_def sampleOpportunity_def [of "''006P1''"]
          sampleMapping_sel)
  have g2: "getLeads ?env2 sampleService = Inr [sampleLead ''00QP1'' ''2024-01-01T00:00:00.000Z''] \<and>
            recordMap [sampleLead ''00QP1'' ''2024-01-01T00:00:00.000Z''] ''00QP1'' =
              Some (sampleLead ''00QP1'' ''2024-01-01T00:00:00.000Z'') \<and>
            raintreeGetLead ?env2 (raintreeId ?m2) =
              Inr (Some (sampleLead ''00QR1'' ''2024-01-02T00:00:00.000Z'')) \<and>
            (decide sampleDates ?m2 (sampleLead ''00QP1'' ''2024-01-01T00:00:00.000Z'')
               (sampleLead ''00QR1'' ''2024-01-02T00:00:00.000Z'') = (PartnerToRaintree, True) \<and>
             Raintree = Partner \<and>
             raintreeUpdateLead ?env2 (raintreeId ?m2)
               (leadPayload (sampleLead ''00QP1'' ''2024-01-01T00:00:00.000Z'')) =
               Some ''Salesforce API error: ENTITY_IS_LOCKED'' \<or>
             decide sampleDates ?m2 (sampleLead ''00QP1'' ''2024-01-01T00:00:00.000Z'')
               (sampleLead ''00QR1'' ''2024-01-02T00:00:00.000Z'') = (RaintreeToPartner, True) \<and>
             Raintree = Raintree \<and>
             updateLead ?env2 sampleService (partnerId ?m2)
               (leadPayload (sampleLead ''00QR1'' ''2024-01-02T00:00:00.000Z'')) =
               Some ''Salesforce API error: ENTITY_IS_LOCKED'')"
    using d2 by (simp add: sampleRemote_def recordMap_def sampleLead_def [of "''00QP1''"]
          sampleMapping_sel)
  from failed_update_is_reported_and_stored
         [where D = sampleDates and clock = sampleClock, OF h1, THEN conjunct1, rule_format, OF g1]
       failed_update_is_reported_and_stored
         [where D = sampleDates and clock = sampleClock, OF h2, THEN conjunct2, rule_format, OF g2]
  show ?thesis using h1(3) d1 u1 d2 u2 by blast
qed

text \<open>
  C4 as stated fails: after a failed update the returned mapping differs from the
  input mapping in both the stored Partner date and \<open>lastSyncSource\<close>.
\<close>

theorem failed_update_overwrites_mapping:
  "syncOpportunities sampleDates
     ((sampleRemote ''2024-01-02T00:00:00.000Z'' ''2024-01-01T00:00:00.000Z'')
        \<lparr> raintreeUpdateOpportunity := (\<lambda>i d. Some ''Salesforce API error: UNABLE_TO_LOCK_ROW'') \<rparr>)
     sampleClock sampleCredentials [(''006P1'', sampleMapping ''006P1'' ''006R1'' System)] =
   Inr \<lparr> results =
           [\<lparr> recordId = ''006P1'', recordName = ''Deal'', syncDirection = PartnerToRaintree,
              success = False, error = Some ''Salesforce API error: UNABLE_TO_LOCK_ROW'',
              timestamp = ''2024-01-04T00:00:00.000Z'' \<rparr>],
         updatedMappings =
           [(''006P1'',
             \<lparr> partnerId = ''006P1'', raintreeId = ''006R1'',
               partnerLastModified = Some ''2024-01-02T00:00:00.000Z'',
               raintreeLastModified = Some ''2024-01-01T00:00:00.000Z'',
               lastSyncSource = Partner, lastSyncTime = ''2024-01-04T00:00:00.000Z'' \<rparr>)],
         calls =
           [RaintreeUpdateOpportunity ''006R1''
              \<lparr> OpportunityData.Name = Some ''Deal'', StageName = Some ''Prospecting'',
                Amount = 5000, CloseDate = Some ''2024-06-30'' \<rparr>] \<rparr> \<and>
   sampleMapping ''006P1'' ''006R1'' System =
     \<lparr> partnerId = ''006P1'', raintreeId = ''006R1'',
       partnerLastModified = Some ''2024-01-01T00:00:00.000Z'',
       raintreeLastModified = Some ''2024-01-01T00:00:00.000Z'',
       lastSyncSource = System, lastSyncTime = ''2024-01-01T00:00:05.000Z'' \<rparr>"
  by (simp add: pass_eval sample_eval)

text \<open>
  C9. A conflict is resolved at once into one of the two propagate actions (C1), but it
  is not reported: no result of a pass has the direction conflict, so the summary of
  the route counts no conflicts.
\<close>

theorem conflict_is_never_reported:
  assumes "syncOpportunities D env clock creds opportunityMappings = Inr oppSync"
    and "syncLeads D env clock' creds' leadMappings = Inr leadSync"
  shows "Conflict \<notin> syncDirection ` set (results oppSync @ results leadSync) \<and>
         conflicts (summary (results oppSync) (results leadSync)) = 0"
proof -
  have 1: "Conflict \<notin> syncDirection ` set (results oppSync @ results leadSync)"
    using syncOpportunities_directions [OF assms(1)] syncLeads_directions [OF assms(2)]
    by (simp add: image_Un)
  have "filter (\<lambda>r. syncDirection r = Conflict) (results oppSync @ results leadSync) = []"
    unfolding filter_empty_conv using 1 by (metis imageI)
  then have "conflicts (summary (results oppSync) (results leadSync)) = 0"
    by (simp add: summary_def)
  with 1 show ?thesis by blast
qed

theorem conflict_is_never_reported_witness:
  "partnerHasNewChanges sampleDates (sampleMapping ''006P1'' ''006R1'' System)
     (sampleOpportunity ''006P1'' ''2024-01-03T00:00:00.000Z'') \<and>
   raintreeHasNewChanges sampleDates (sampleMapping ''006P1'' ''006R1'' System)
     (sampleOpportunity ''006R1'' ''2024-01-02T00:00:00.000Z'') \<and>
   syncOpportunities sampleDates
     (sampleRemote ''2024-01-03T00:00:00.000Z'' ''2024-01-02T00:00:00.000Z'')
     sampleClock sampleCredentials [(''006P1'', sampleMapping ''006P1'' ''006R1'' System)] =
   Inr \<lparr> results =
           [\<lparr> recordId = ''006P1'', recordName = ''Deal'', syncDirection = PartnerToRaintree,
              success = True, error = None, timestamp = ''2024-01-04T00:00:00.000Z'' \<rparr>],
         updatedMappings =
           [(''006P1'',
             \<lparr> partnerId = ''006P1'', raintreeId = ''006R1'',
               partnerLastModified = Some ''2024-01-03T00:00:00.000Z'',
               raintreeLastModified = Some ''2024-01-02T00:00:00.000Z'',
               lastSyncSource = Partner, lastSyncTime = ''2024-01-04T00:00:00.000Z'' \<rparr>)],
         calls =
           [RaintreeUpdateOpportunity ''006R1''
              \<lparr> OpportunityData.Name = Some ''Deal'', StageName = Some ''Prospecting'',
                Amount = 5000, CloseDate = Some ''2024-06-30'' \<rparr>] \<rparr> \<and>
   syncLeads sampleDates
     (sampleRemote ''2024-01-03T00:00:00.000Z'' ''2024-01-02T00:00:00.000Z'')
     sampleClock sampleCredentials [] =
   Inr \<lparr> results = [], updatedMappings = [], calls = [] \<rparr> \<and>
   conflicts (summary
     [\<lparr> recordId = ''006P1'', recordName = ''Deal'', syncDirection = PartnerToRaintree,
        success = True, error = None, timestamp = ''2024-01-04T00:00:00.000Z'' \<rparr>] []) = 0 \<and>
   synced (summary
     [\<lparr> recordId = ''006P1'', recordName = ''Deal'', syncDirection = PartnerToRaintree,
        success = True, error = None, timestamp = ''2024-01-04T00:00:00.000Z'' \<rparr>] []) = 1"
proof -
  have o: "syncOpportunities sampleDates
     (sampleRemote ''2024-01-03T00:00:00.000Z'' ''2024-01-02T00:00:00.000Z'')
     sampleClock sampleCredentials [(''006P1'', sampleMapping ''006P1'' ''006R1'' System)] =
   Inr \<lparr> results =
           [\<lparr> recordId = ''006P1'', recordName = ''Deal'', syncDirection = PartnerToRaintree,
              success = True, error = None, timestamp = ''2024-01-04T00:00:00.000Z'' \<rparr>],
         updatedMappings =
           [(''006P1'',
             \<lparr> partnerId = ''006P1'', raintreeId = ''006R1'',
               partnerLastModified = Some ''2024-01-03T00:00:00.000Z'',
               raintreeLastModified = Some ''2024-01-02T00:00:00.000Z'',
               lastSyncSource = Partner, lastSyncTime = ''2024-01-04T00:00:00.000Z'' \<rparr>)],
         calls =
           [RaintreeUpdateOpportunity ''006R1''
              \<lparr> OpportunityData.Name = Some ''Deal'', StageName = Some ''Prospecting'',
                Amount = 5000, CloseDate = Some ''2024-06-30'' \<rparr>] \<rparr>"
    by (simp add: pass_eval sample_eval)
  have l: "syncLeads sampleDates
     (sampleRemote ''2024-01-03T00:00:00.000Z'' ''2024-01-02T00:00:00.000Z'')
     sampleClock sampleCredentials [] =
   Inr \<lparr> results = [], updatedMappings = [], calls = [] \<rparr>"
    by (simp add: syncLeads_def sampleRemote_def)
  from conflict_is_never_reported [OF o l]
  show ?thesis using o l
    by (simp add: sample_partnerHasNewChanges sample_raintreeHasNewChanges summary_def)
qed

end
